theory Spec2Isabelle
  imports Complex_Main "HOL-Library.AList" "HOL-Library.Monad_Syntax"
begin

section \<open>The chat route of the flight-booking assistant\<close>

text \<open>
  The repository holds three revisions of the same route module:
  \<^item> \<open>src/app/(chat)/api/chat/route.ts\<close>, lines 1 to 264: the revision whose
    \<open>displayBoardingPass\<close> validates the stored details against
    \<open>ReservationDetailsSchema\<close> (definitions with the suffix \<open>_route1\<close>);
  \<^item> the same file, lines 264 to 636: the revision whose \<open>displayBoardingPass\<close> reads
    the stored details without validating them (suffix \<open>_route2\<close>);
  \<^item> \<open>src/unnamed/part_000\<close>: the revision whose \<open>displayBoardingPass\<close> returns the
    parameters it was called with (suffix \<open>_part\<close>).
  Where the two revisions of \<open>route.ts\<close> have the same code, one definition with the
  suffix \<open>_route\<close> stands for both; where all three agree, the definition has no suffix.
\<close>

subsection \<open>JSON values\<close>

text \<open>
  Tool results, stored reservation details and request payloads are JSON values. A
  JavaScript number is idealised as a real: the handlers never compute with one.
  An object is the list of its properties in insertion order; \<open>map_of\<close> reads one.
\<close>

datatype json =
    JNull
  | JBool bool
  | JNum real
  | JStr string
  | JArr "json list"
  | JObj "(string \<times> json) list"

text \<open>The object \<open>{ error: msg }\<close> every tool returns on a refusal.\<close>

definition error_payload :: "string \<Rightarrow> json" where
  "error_payload msg = JObj [(''error'', JStr msg)]"

text \<open>The names of the properties of a value (none unless it is an object).\<close>

fun keys :: "json \<Rightarrow> string list" where
  "keys (JObj kvs) = map fst kvs"
| "keys _ = []"

text \<open>\<open>Array.prototype.join\<close> on an array of strings.\<close>

fun join :: "string \<Rightarrow> string list \<Rightarrow> string" where
  "join sep [] = []"
| "join sep [x] = x"
| "join sep (x # y # ys) = x @ sep @ join sep (y # ys)"

text \<open>
  An object literal some of whose property values may be \<open>undefined\<close> (\<open>None\<close>): such a
  property is left out, as the JSON serialisation of a tool result leaves it out.
\<close>

fun object :: "(string \<times> json option) list \<Rightarrow> (string \<times> json) list" where
  "object [] = []"
| "object ((k, None) # kvs) = object kvs"
| "object ((k, Some v) # kvs) = (k, v) # object kvs"

subsection \<open>The data model\<close>

text \<open>Departure and arrival: \<open>{ cityName, airportCode, timestamp, gate, terminal }\<close>.\<close>

record place =
  cityName :: string
  airportCode :: string
  timestamp :: string
  gate :: string
  terminal :: string

text \<open>
  The parameters of \<open>createReservation\<close> as its \<open>execute\<close> receives them (\<open>props\<close>).
  The first revision of \<open>route.ts\<close> elides the fields of \<open>departure\<close> and
  \<open>arrival\<close> with a comment; they are the five strings the other two revisions spell out.
\<close>

record props =
  seats :: "string list"
  flightNumber :: string
  departure :: place
  arrival :: place
  passengerName :: string

text \<open>\<open>{ ...props, totalPriceInUSD }\<close>: the details of a reservation.\<close>

record reservation_details = props +
  totalPriceInUSD :: real

definition with_price :: "props \<Rightarrow> real \<Rightarrow> reservation_details" where
  "with_price p t =
     \<lparr>seats = seats p, flightNumber = flightNumber p, departure = departure p,
      arrival = arrival p, passengerName = passengerName p, totalPriceInUSD = t\<rparr>"

definition place_json :: "place \<Rightarrow> json" where
  "place_json p =
     JObj [(''cityName'', JStr (cityName p)), (''airportCode'', JStr (airportCode p)),
           (''timestamp'', JStr (timestamp p)), (''gate'', JStr (gate p)),
           (''terminal'', JStr (terminal p))]"

definition props_fields :: "'a props_scheme \<Rightarrow> (string \<times> json) list" where
  "props_fields p =
     [(''seats'', JArr (map JStr (seats p))), (''flightNumber'', JStr (flightNumber p)),
      (''departure'', place_json (departure p)), (''arrival'', place_json (arrival p)),
      (''passengerName'', JStr (passengerName p))]"

definition details_fields :: "reservation_details \<Rightarrow> (string \<times> json) list" where
  "details_fields d = props_fields d @ [(''totalPriceInUSD'', JNum (totalPriceInUSD d))]"

definition details_json :: "reservation_details \<Rightarrow> json" where
  "details_json d = JObj (details_fields d)"

text \<open>
  A row of the reservation table. \<open>details\<close> is typed \<open>unknown\<close> in the handlers: any
  JSON value.
\<close>

record reservation =
  reservation_id :: string
  reservation_userId :: string
  details :: json
  hasCompletedPayment :: bool

text \<open>
  A core message: \<open>content\<close> is a string or an array of parts; \<open>content.length\<close> is
  defined on both.
\<close>

datatype content = Text string | Parts "json list"

fun content_length :: "content \<Rightarrow> nat" where
  "content_length (Text s) = length s"
| "content_length (Parts ps) = length ps"

record core_message =
  role :: string
  content :: content

record chat =
  messages :: "core_message list"
  userId :: string

text \<open>The session \<open>auth()\<close> resolves to: \<open>user\<close> and \<open>user.id\<close> are optional.\<close>

record user =
  user_id :: "string option"

record session =
  session_user :: "user option"

text \<open>
  The guard \<open>session?.user?.id\<close> (also written \<open>session && session.user &&
  session.user.id\<close>): the id when the chain is truthy. The empty string is falsy.
\<close>

definition live_user_id :: "session option \<Rightarrow> string option" where
  "live_user_id s =
     (case s of
        None \<Rightarrow> None
      | Some x \<Rightarrow>
          (case session_user x of
             None \<Rightarrow> None
           | Some u \<Rightarrow>
               (case user_id u of
                  None \<Rightarrow> None
                | Some i \<Rightarrow> if i = [] then None else Some i)))"

subsection \<open>\<open>ReservationDetailsSchema\<close> (route.ts, lines 23 to 42)\<close>

text \<open>
  A zod schema is a parser: \<open>safeParse\<close> gives the typed data or fails. The argument is
  \<open>None\<close> for a property that is missing (\<open>undefined\<close>). \<open>z.object\<close> accepts an
  object only (not an array, not \<open>null\<close>), reads the declared keys and drops the others.
\<close>

fun z_string :: "json option \<Rightarrow> string option" where
  "z_string (Some (JStr s)) = Some s"
| "z_string _ = None"

fun z_number :: "json option \<Rightarrow> real option" where
  "z_number (Some (JNum x)) = Some x"
| "z_number _ = None"

fun z_string_array :: "json option \<Rightarrow> string list option" where
  "z_string_array (Some (JArr xs)) = those (map (\<lambda>x. z_string (Some x)) xs)"
| "z_string_array _ = None"

fun z_place :: "json option \<Rightarrow> place option" where
  "z_place (Some (JObj kvs)) =
     do {
       c \<leftarrow> z_string (map_of kvs ''cityName'');
       a \<leftarrow> z_string (map_of kvs ''airportCode'');
       t \<leftarrow> z_string (map_of kvs ''timestamp'');
       g \<leftarrow> z_string (map_of kvs ''gate'');
       r \<leftarrow> z_string (map_of kvs ''terminal'');
       Some \<lparr>cityName = c, airportCode = a, timestamp = t, gate = g, terminal = r\<rparr>
     }"
| "z_place _ = None"

fun ReservationDetailsSchema :: "json \<Rightarrow> reservation_details option" where
  "ReservationDetailsSchema (JObj kvs) =
     do {
       s \<leftarrow> z_string_array (map_of kvs ''seats'');
       f \<leftarrow> z_string (map_of kvs ''flightNumber'');
       d \<leftarrow> z_place (map_of kvs ''departure'');
       a \<leftarrow> z_place (map_of kvs ''arrival'');
       p \<leftarrow> z_string (map_of kvs ''passengerName'');
       t \<leftarrow> z_number (map_of kvs ''totalPriceInUSD'');
       Some \<lparr>seats = s, flightNumber = f, departure = d, arrival = a,
             passengerName = p, totalPriceInUSD = t\<rparr>
     }"
| "ReservationDetailsSchema _ = None"

subsection \<open>The collaborators of the handlers\<close>

text \<open>
  A value thrown by a collaborator: an \<open>Error\<close> with its message, or something that
  is not an \<open>Error\<close> (the \<open>catch\<close> of \<open>POST\<close> tells them apart).
\<close>

datatype thrown = Error string | NonError

text \<open>What \<open>fetch\<close> resolves to in \<open>getWeather\<close>.\<close>

record weather_response =
  ok :: bool
  statusText :: string
  weather_json :: json

text \<open>
  Every call a handler makes outside its own module, with its arguments. The world keeps
  the list of the calls made so far, in order.
\<close>

datatype call =
    CallAuth
  | CallGenerateReservationPrice props
  | CallGenerateUUID
  | CallGetReservationById string
  | CallCreateReservation string string json
  | CallGetChatById string
  | CallSaveChat string "core_message list" string
  | CallDeleteChatById string
  | CallFetchWeather real real
  | CallGenerateSampleFlightStatus string string
  | CallGenerateSampleFlightSearchResults string string
  | CallGenerateSampleSeatSelection string
  | CallStreamText "core_message list"

text \<open>
  What the collaborators answer is a parameter of every handler:
  \<^item> \<open>session_at n\<close> is what the \<open>n\<close>-th call of \<open>auth()\<close> resolves to (a session may
    expire between two calls);
  \<^item> \<open>rejects c\<close> is the value the call \<open>c\<close> throws, if it throws;
  \<^item> the other fields are the values the sample generators, the weather service and the
    SDK's \<open>convertToCoreMessages\<close> return, and how a number prints.
\<close>

record env =
  session_at :: "nat \<Rightarrow> session option"
  rejects :: "call \<Rightarrow> thrown option"
  price_of :: "props \<Rightarrow> real"
  weather_of :: "real \<Rightarrow> real \<Rightarrow> weather_response"
  flight_status_of :: "string \<Rightarrow> string \<Rightarrow> json"
  flight_search_of :: "string \<Rightarrow> string \<Rightarrow> json"
  seat_selection_of :: "string \<Rightarrow> json"
  convertToCoreMessages :: "json list \<Rightarrow> core_message list"
  numberToString :: "real \<Rightarrow> string"

text \<open>
  The state the handlers act on: the two tables, the number of \<open>auth()\<close> calls made, and
  the log of calls.
\<close>

record world =
  reservations :: "(string \<times> reservation) list"
  chats :: "(string \<times> chat) list"
  auth_count :: nat
  calls :: "call list"

definition logged :: "call \<Rightarrow> world \<Rightarrow> world" where
  "logged c w = w\<lparr>calls := calls w @ [c]\<rparr>"

text \<open>A call that changes no table: it is logged, and throws or returns \<open>v\<close>.\<close>

definition external :: "env \<Rightarrow> call \<Rightarrow> 'a \<Rightarrow> world \<Rightarrow> (thrown + 'a) \<times> world" where
  "external e c v w =
     (case rejects e c of
        Some t \<Rightarrow> (Inl t, logged c w)
      | None \<Rightarrow> (Inr v, logged c w))"

definition auth :: "env \<Rightarrow> world \<Rightarrow> session option \<times> world" where
  "auth e w =
     (session_at e (auth_count w),
      logged CallAuth (w\<lparr>auth_count := Suc (auth_count w)\<rparr>))"

definition generateReservationPrice ::
  "env \<Rightarrow> props \<Rightarrow> world \<Rightarrow> (thrown + real) \<times> world" where
  "generateReservationPrice e p w = external e (CallGenerateReservationPrice p) (price_of e p) w"

definition fetchWeather ::
  "env \<Rightarrow> real \<Rightarrow> real \<Rightarrow> world \<Rightarrow> (thrown + weather_response) \<times> world" where
  "fetchWeather e la lo w = external e (CallFetchWeather la lo) (weather_of e la lo) w"

definition generateSampleFlightStatus ::
  "env \<Rightarrow> string \<Rightarrow> string \<Rightarrow> world \<Rightarrow> (thrown + json) \<times> world" where
  "generateSampleFlightStatus e f d w =
     external e (CallGenerateSampleFlightStatus f d) (flight_status_of e f d) w"

definition generateSampleFlightSearchResults ::
  "env \<Rightarrow> string \<Rightarrow> string \<Rightarrow> world \<Rightarrow> (thrown + json) \<times> world" where
  "generateSampleFlightSearchResults e origin destination w =
     external e (CallGenerateSampleFlightSearchResults origin destination)
       (flight_search_of e origin destination) w"

definition generateSampleSeatSelection ::
  "env \<Rightarrow> string \<Rightarrow> world \<Rightarrow> (thrown + json) \<times> world" where
  "generateSampleSeatSelection e f w =
     external e (CallGenerateSampleSeatSelection f) (seat_selection_of e f) w"

text \<open>
  Modelled from the spec: \<open>generateUUID\<close> of \<open>@/lib/utils\<close> is not among the sources.
  The spec says \<open>createReservation\<close> "generates a fresh unique reservation id", one
  "not previously seen in the store". \<open>fresh_id\<close> is such an id: a string longer than
  every id of the table.
\<close>

definition fresh_id :: "string list \<Rightarrow> string" where
  "fresh_id seen = replicate (Suc (foldr (\<lambda>s n. max (length s) n) seen 0)) (CHR ''0'')"

definition generateUUID :: "world \<Rightarrow> string \<times> world" where
  "generateUUID w = (fresh_id (map fst (reservations w)), logged CallGenerateUUID w)"

text \<open>
  Modelled from the spec: the queries of \<open>@/db/queries\<close> are not among the sources. The
  spec gives their contracts: \<open>getChatById\<close> and \<open>getReservationById\<close> return the
  "record or null"; \<open>createReservation\<close> "persists {id, user id, details+price}", the
  payment flag being "flipped by an external payment-authorization flow" later on, so a
  new row has it unset; \<open>saveChat\<close> "persists the concatenation under the chat id,
  scoped to the resolved user id"; \<open>deleteChatById\<close> removes the chat. A query that
  throws changes nothing.
\<close>

definition getReservationById ::
  "env \<Rightarrow> string \<Rightarrow> world \<Rightarrow> (thrown + reservation option) \<times> world" where
  "getReservationById e i w = external e (CallGetReservationById i) (map_of (reservations w) i) w"

definition getChatById :: "env \<Rightarrow> string \<Rightarrow> world \<Rightarrow> (thrown + chat option) \<times> world" where
  "getChatById e i w = external e (CallGetChatById i) (map_of (chats w) i) w"

definition createReservation ::
  "env \<Rightarrow> string \<Rightarrow> string \<Rightarrow> json \<Rightarrow> world \<Rightarrow> (thrown + unit) \<times> world" where
  "createReservation e i uid d w =
     (case rejects e (CallCreateReservation i uid d) of
        Some t \<Rightarrow> (Inl t, logged (CallCreateReservation i uid d) w)
      | None \<Rightarrow>
          (Inr (),
           logged (CallCreateReservation i uid d)
             (w\<lparr>reservations :=
                  AList.update i
                    \<lparr>reservation_id = i, reservation_userId = uid, details = d,
                     hasCompletedPayment = False\<rparr>
                    (reservations w)\<rparr>)))"

definition saveChat ::
  "env \<Rightarrow> string \<Rightarrow> core_message list \<Rightarrow> string \<Rightarrow> world \<Rightarrow> (thrown + unit) \<times> world" where
  "saveChat e i ms uid w =
     (case rejects e (CallSaveChat i ms uid) of
        Some t \<Rightarrow> (Inl t, logged (CallSaveChat i ms uid) w)
      | None \<Rightarrow>
          (Inr (),
           logged (CallSaveChat i ms uid)
             (w\<lparr>chats := AList.update i \<lparr>messages = ms, userId = uid\<rparr> (chats w)\<rparr>)))"

definition deleteChatById :: "env \<Rightarrow> string \<Rightarrow> world \<Rightarrow> (thrown + unit) \<times> world" where
  "deleteChatById e i w =
     (case rejects e (CallDeleteChatById i) of
        Some t \<Rightarrow> (Inl t, logged (CallDeleteChatById i) w)
      | None \<Rightarrow>
          (Inr (), logged (CallDeleteChatById i) (w\<lparr>chats := AList.delete i (chats w)\<rparr>)))"

subsection \<open>The tools that touch no table\<close>

text \<open>
  \<open>getWeather\<close> (route.ts, lines 350 to 360; part_000, lines 65 to 76). There is no
  \<open>try\<close> around \<open>fetch\<close>: what it throws, the tool throws.
\<close>

definition getWeather_route :: "env \<Rightarrow> real \<Rightarrow> real \<Rightarrow> world \<Rightarrow> (thrown + json) \<times> world" where
  "getWeather_route e latitude longitude w =
     (case fetchWeather e latitude longitude w of
        (Inl t, w1) \<Rightarrow> (Inl t, w1)
      | (Inr response, w1) \<Rightarrow>
          if \<not> ok response
          then (Inr (error_payload (''Failed to fetch weather: '' @ statusText response)), w1)
          else (Inr (weather_json response), w1))"

definition getWeather_part :: "env \<Rightarrow> real \<Rightarrow> real \<Rightarrow> world \<Rightarrow> (thrown + json) \<times> world" where
  "getWeather_part e latitude longitude w =
     (case fetchWeather e latitude longitude w of
        (Inl t, w1) \<Rightarrow> (Inl t, w1)
      | (Inr response, w1) \<Rightarrow>
          if \<not> ok response
          then (Inr (error_payload ''Failed to fetch weather''), w1)
          else (Inr (weather_json response), w1))"

text \<open>\<open>displayFlightStatus\<close>, \<open>searchFlights\<close>, \<open>selectSeats\<close>: the generator's answer.\<close>

definition displayFlightStatus ::
  "env \<Rightarrow> string \<Rightarrow> string \<Rightarrow> world \<Rightarrow> (thrown + json) \<times> world" where
  "displayFlightStatus e flightNo date w = generateSampleFlightStatus e flightNo date w"

definition searchFlights ::
  "env \<Rightarrow> string \<Rightarrow> string \<Rightarrow> world \<Rightarrow> (thrown + json) \<times> world" where
  "searchFlights e origin destination w = generateSampleFlightSearchResults e origin destination w"

definition selectSeats :: "env \<Rightarrow> string \<Rightarrow> world \<Rightarrow> (thrown + json) \<times> world" where
  "selectSeats e flightNo w = generateSampleSeatSelection e flightNo w"

text \<open>\<open>authorizePayment\<close> (route.ts, lines 455 to 459; part_000, lines 171 to 174).\<close>

definition authorizePayment_route :: "string \<Rightarrow> json" where
  "authorizePayment_route reservationId =
     JObj [(''message'',
            JStr (''User needs to authorize payment for reservation '' @ reservationId @ ''.'')),
           (''reservationId'', JStr reservationId)]"

definition authorizePayment_part :: "string \<Rightarrow> json" where
  "authorizePayment_part reservationId =
     JObj [(''reservationId'', JStr reservationId),
           (''status'', JStr ''Awaiting user payment authorization'')]"

subsection \<open>\<open>createReservation\<close>\<close>

text \<open>
  route.ts, lines 87 to 107 and lines 421 to 442: the price, then \<open>auth()\<close> again, then
  the id; a row is written only under a live user id. Nothing is caught: what the
  pricing function or the insertion throws, the tool throws.
\<close>

definition createReservation_route :: "env \<Rightarrow> props \<Rightarrow> world \<Rightarrow> (thrown + json) \<times> world" where
  "createReservation_route e p w =
     (case generateReservationPrice e p w of
        (Inl t, w1) \<Rightarrow> (Inl t, w1)
      | (Inr price, w1) \<Rightarrow>
          (case auth e w1 of
             (session, w2) \<Rightarrow>
               (case generateUUID w2 of
                  (reservationId, w3) \<Rightarrow>
                    (case live_user_id session of
                       Some uid \<Rightarrow>
                         (let detailsToStore = with_price p price in
                          case createReservation e reservationId uid
                                 (details_json detailsToStore) w3 of
                            (Inl t, w4) \<Rightarrow> (Inl t, w4)
                          | (Inr _, w4) \<Rightarrow>
                              (Inr (JObj ((''id'', JStr reservationId) #
                                          details_fields detailsToStore)), w4))
                     | None \<Rightarrow>
                         (Inr (error_payload
                                ''User session lost. Cannot create reservation.''), w3)))))"

text \<open>part_000, lines 140 to 160: the same steps inside one \<open>try\<close>.\<close>

definition createReservation_part :: "env \<Rightarrow> props \<Rightarrow> world \<Rightarrow> json \<times> world" where
  "createReservation_part e p w =
     (case generateReservationPrice e p w of
        (Inl t, w1) \<Rightarrow> (error_payload ''Failed to create reservation.'', w1)
      | (Inr price, w1) \<Rightarrow>
          (case auth e w1 of
             (currentSession, w2) \<Rightarrow>
               (case generateUUID w2 of
                  (reservationId, w3) \<Rightarrow>
                    (case live_user_id currentSession of
                       Some uid \<Rightarrow>
                         (case createReservation e reservationId uid
                                 (details_json (with_price p price)) w3 of
                            (Inl t, w4) \<Rightarrow>
                              (error_payload ''Failed to create reservation.'', w4)
                          | (Inr _, w4) \<Rightarrow>
                              (JObj ((''id'', JStr reservationId) # props_fields p @
                                     [(''totalPriceInUSD'', JNum price)]), w4))
                     | None \<Rightarrow>
                         (error_payload
                            ''User is not signed in to perform this action!'', w3)))))"

subsection \<open>\<open>verifyPayment\<close>\<close>

text \<open>
  route.ts, lines 468 to 486; part_000, lines 183 to 199. The ownership check is
  commented out in both: the tool calls nothing but \<open>getReservationById\<close>.
\<close>

definition verifyPayment :: "env \<Rightarrow> string \<Rightarrow> world \<Rightarrow> json \<times> world" where
  "verifyPayment e reservationId w =
     (case getReservationById e reservationId w of
        (Inl t, w1) \<Rightarrow> (error_payload ''Could not verify payment status.'', w1)
      | (Inr None, w1) \<Rightarrow>
          (error_payload (''Reservation '' @ reservationId @ '' not found.''), w1)
      | (Inr (Some reservation), w1) \<Rightarrow>
          (JObj [(''hasCompletedPayment'', JBool (hasCompletedPayment reservation))], w1))"

subsection \<open>\<open>displayBoardingPass\<close>\<close>

text \<open>
  The parameters the model sends. The first revision of \<open>route.ts\<close> declares
  \<open>reservationId\<close> only; the other two declare all six, \<open>departure\<close> and \<open>arrival\<close>
  being objects whose fields the source elides.
\<close>

record boardingPassParams =
  reservationId :: string
  bp_passengerName :: string
  bp_flightNumber :: string
  seat :: string
  bp_departure :: json
  bp_arrival :: json

definition boardingPassParams_fields :: "boardingPassParams \<Rightarrow> (string \<times> json) list" where
  "boardingPassParams_fields ps =
     [(''reservationId'', JStr (reservationId ps)),
      (''passengerName'', JStr (bp_passengerName ps)),
      (''flightNumber'', JStr (bp_flightNumber ps)),
      (''seat'', JStr (seat ps)),
      (''departure'', bp_departure ps),
      (''arrival'', bp_arrival ps)]"

text \<open>
  route.ts, lines 121 to 163. \<open>safeParse\<close> does not throw, so the inner \<open>catch\<close> is
  never taken; the outer one catches \<open>getReservationById\<close>.
\<close>

definition displayBoardingPass_route1 :: "env \<Rightarrow> string \<Rightarrow> world \<Rightarrow> json \<times> world" where
  "displayBoardingPass_route1 e rid w =
     (case getReservationById e rid w of
        (Inl t, w1) \<Rightarrow>
          (error_payload
             ''An internal error occurred while retrieving boarding pass details.'', w1)
      | (Inr None, w1) \<Rightarrow> (error_payload (''Reservation '' @ rid @ '' not found.''), w1)
      | (Inr (Some reservation), w1) \<Rightarrow>
          if \<not> hasCompletedPayment reservation
          then (error_payload
                  ''Payment not completed for this reservation. Cannot display boarding pass.'',
                w1)
          else
            (case ReservationDetailsSchema (details reservation) of
               None \<Rightarrow>
                 (error_payload ''Invalid reservation details structure in database.'', w1)
             | Some parsedDetails \<Rightarrow>
                 (JObj [(''reservationId'', JStr (reservation_id reservation)),
                        (''passengerName'', JStr (passengerName parsedDetails)),
                        (''flightNumber'', JStr (flightNumber parsedDetails)),
                        (''seat'', JStr (join '', '' (seats parsedDetails))),
                        (''departure'', place_json (departure parsedDetails)),
                        (''arrival'', place_json (arrival parsedDetails))], w1)))"

text \<open>
  The second revision reads the stored value as it is. Reading a property of \<open>null\<close>
  throws a \<open>TypeError\<close>; of an object, gives the property or \<open>undefined\<close>; of any other
  value, gives \<open>undefined\<close> for the five names read here (none is a property of an
  array, a string, a number or a boolean).
\<close>

fun js_get :: "json \<Rightarrow> string \<Rightarrow> thrown + json option" where
  "js_get JNull k = Inl (Error ''TypeError'')"
| "js_get (JObj kvs) k = Inr (map_of kvs k)"
| "js_get _ k = Inr None"

text \<open>
  \<open>String(v)\<close>, and \<open>xs.join(sep)\<close> on any array: an element that is \<open>null\<close> prints as
  the empty string. \<open>f\<close> prints a number.
\<close>

fun js_toString :: "(real \<Rightarrow> string) \<Rightarrow> json \<Rightarrow> string" where
  "js_toString f JNull = ''null''"
| "js_toString f (JBool b) = (if b then ''true'' else ''false'')"
| "js_toString f (JNum x) = f x"
| "js_toString f (JStr s) = s"
| "js_toString f (JArr xs) =
     join '','' (map (\<lambda>x. if x = JNull then [] else js_toString f x) xs)"
| "js_toString f (JObj kvs) = ''[object Object]''"

definition js_join :: "(real \<Rightarrow> string) \<Rightarrow> json option \<Rightarrow> string \<Rightarrow> thrown + string" where
  "js_join f v sep =
     (case v of
        Some (JArr xs) \<Rightarrow>
          Inr (join sep (map (\<lambda>x. if x = JNull then [] else js_toString f x) xs))
      | _ \<Rightarrow> Inl (Error ''TypeError''))"

text \<open>route.ts, lines 514 to 522: the object built from the stored details.\<close>

definition boardingPassData_route2 :: "env \<Rightarrow> reservation \<Rightarrow> thrown + json" where
  "boardingPassData_route2 e reservation =
     (case js_get (details reservation) ''passengerName'' of
        Inl t \<Rightarrow> Inl t
      | Inr name \<Rightarrow>
     (case js_get (details reservation) ''flightNumber'' of
        Inl t \<Rightarrow> Inl t
      | Inr flight \<Rightarrow>
     (case js_get (details reservation) ''seats'' of
        Inl t \<Rightarrow> Inl t
      | Inr ss \<Rightarrow>
     (case js_join (numberToString e) ss '', '' of
        Inl t \<Rightarrow> Inl t
      | Inr joined \<Rightarrow>
     (case js_get (details reservation) ''departure'' of
        Inl t \<Rightarrow> Inl t
      | Inr dep \<Rightarrow>
     (case js_get (details reservation) ''arrival'' of
        Inl t \<Rightarrow> Inl t
      | Inr arr \<Rightarrow>
          Inr (JObj (object
            [(''reservationId'', Some (JStr (reservation_id reservation))),
             (''passengerName'', name),
             (''flightNumber'', flight),
             (''seat'', Some (JStr joined)),
             (''departure'', dep),
             (''arrival'', arr)]))))))))"

text \<open>route.ts, lines 502 to 528.\<close>

definition displayBoardingPass_route2 :: "env \<Rightarrow> string \<Rightarrow> world \<Rightarrow> json \<times> world" where
  "displayBoardingPass_route2 e rid w =
     (case getReservationById e rid w of
        (Inl t, w1) \<Rightarrow> (error_payload ''Could not retrieve boarding pass details.'', w1)
      | (Inr None, w1) \<Rightarrow> (error_payload (''Reservation '' @ rid @ '' not found.''), w1)
      | (Inr (Some reservation), w1) \<Rightarrow>
          if \<not> hasCompletedPayment reservation
          then (error_payload
                  ''Payment not completed for this reservation. Cannot display boarding pass.'',
                w1)
          else
            (case boardingPassData_route2 e reservation of
               Inl t \<Rightarrow> (error_payload ''Could not retrieve boarding pass details.'', w1)
             | Inr boardingPassData \<Rightarrow> (boardingPassData, w1)))"

text \<open>
  part_000, lines 214 to 250: past the two checks, the parameters come back with a
  \<open>status\<close> added.
\<close>

definition displayBoardingPass_part :: "env \<Rightarrow> boardingPassParams \<Rightarrow> world \<Rightarrow> json \<times> world" where
  "displayBoardingPass_part e ps w =
     (case getReservationById e (reservationId ps) w of
        (Inl t, w1) \<Rightarrow> (error_payload ''Could not display boarding pass.'', w1)
      | (Inr None, w1) \<Rightarrow>
          (error_payload (''Reservation '' @ reservationId ps @ '' not found.''), w1)
      | (Inr (Some reservation), w1) \<Rightarrow>
          if \<not> hasCompletedPayment reservation
          then (error_payload ''Payment not completed. Cannot display boarding pass.'', w1)
          else
            (JObj (boardingPassParams_fields ps @
                   [(''status'', JStr ''Displayed (using potentially unverified details)'')]),
             w1))"

subsection \<open>The tool registry\<close>

text \<open>One invocation of a tool by the model, with the arguments its schema parsed.\<close>

datatype tool_call =
    GetWeather real real
  | DisplayFlightStatus string string
  | SearchFlights string string
  | SelectSeats string
  | CreateReservation props
  | AuthorizePayment string
  | VerifyPayment string
  | DisplayBoardingPass boardingPassParams

definition returned :: "json \<times> world \<Rightarrow> (thrown + json) \<times> world" where
  "returned x = (Inr (fst x), snd x)"

text \<open>
  The \<open>tools\<close> object of each revision. The first revision of \<open>route.ts\<close> elides the
  tools that "remain the same": they are those of the second.
\<close>

fun tools_route1 :: "env \<Rightarrow> tool_call \<Rightarrow> world \<Rightarrow> (thrown + json) \<times> world" where
  "tools_route1 e (GetWeather la lo) w = getWeather_route e la lo w"
| "tools_route1 e (DisplayFlightStatus f d) w = displayFlightStatus e f d w"
| "tools_route1 e (SearchFlights a b) w = searchFlights e a b w"
| "tools_route1 e (SelectSeats f) w = selectSeats e f w"
| "tools_route1 e (CreateReservation p) w = createReservation_route e p w"
| "tools_route1 e (AuthorizePayment i) w = (Inr (authorizePayment_route i), w)"
| "tools_route1 e (VerifyPayment i) w = returned (verifyPayment e i w)"
| "tools_route1 e (DisplayBoardingPass ps) w =
     returned (displayBoardingPass_route1 e (reservationId ps) w)"

fun tools_route2 :: "env \<Rightarrow> tool_call \<Rightarrow> world \<Rightarrow> (thrown + json) \<times> world" where
  "tools_route2 e (GetWeather la lo) w = getWeather_route e la lo w"
| "tools_route2 e (DisplayFlightStatus f d) w = displayFlightStatus e f d w"
| "tools_route2 e (SearchFlights a b) w = searchFlights e a b w"
| "tools_route2 e (SelectSeats f) w = selectSeats e f w"
| "tools_route2 e (CreateReservation p) w = createReservation_route e p w"
| "tools_route2 e (AuthorizePayment i) w = (Inr (authorizePayment_route i), w)"
| "tools_route2 e (VerifyPayment i) w = returned (verifyPayment e i w)"
| "tools_route2 e (DisplayBoardingPass ps) w =
     returned (displayBoardingPass_route2 e (reservationId ps) w)"

fun tools_part :: "env \<Rightarrow> tool_call \<Rightarrow> world \<Rightarrow> (thrown + json) \<times> world" where
  "tools_part e (GetWeather la lo) w = getWeather_part e la lo w"
| "tools_part e (DisplayFlightStatus f d) w = displayFlightStatus e f d w"
| "tools_part e (SearchFlights a b) w = searchFlights e a b w"
| "tools_part e (SelectSeats f) w = selectSeats e f w"
| "tools_part e (CreateReservation p) w = returned (createReservation_part e p w)"
| "tools_part e (AuthorizePayment i) w = (Inr (authorizePayment_part i), w)"
| "tools_part e (VerifyPayment i) w = returned (verifyPayment e i w)"
| "tools_part e (DisplayBoardingPass ps) w = returned (displayBoardingPass_part e ps w)"

text \<open>
  The model invokes tools one after the other; each acts on the world the previous one
  left. The results (or what a tool threw) go into the stream.
\<close>

fun run_tools ::
  "(tool_call \<Rightarrow> world \<Rightarrow> (thrown + json) \<times> world) \<Rightarrow> tool_call list \<Rightarrow> world \<Rightarrow>
   (thrown + json) list \<times> world" where
  "run_tools tool [] w = ([], w)"
| "run_tools tool (c # cs) w =
     (case tool c w of
        (r, w1) \<Rightarrow> (case run_tools tool cs w1 of (rs, w2) \<Rightarrow> (r # rs, w2)))"

subsection \<open>\<open>POST\<close>\<close>

text \<open>
  What the hosted model does with one request is a parameter: \<open>streamText\<close> throws, or
  the stream starts, the model invokes the listed tools, and the stream completes with
  the response messages (\<open>Some\<close>) or never completes (\<open>None\<close>).
\<close>

datatype model_run =
    Rejects thrown
  | Streams "tool_call list" "core_message list option"

datatype payload = TextBody string | JsonBody json

datatype response =
    Response nat payload
  | DataStreamResponse "(thrown + json) list"

text \<open>The body \<open>{ id, messages }\<close> of a \<open>POST\<close>, as the handlers type it.\<close>

record post_body =
  body_id :: string
  body_messages :: "json list"

text \<open>
  A \<open>POST\<close> request: its body parses to the declared \<open>{ id, messages }\<close>, or
  \<open>await request.json()\<close> (with the destructuring of its result) throws, as it does on
  a body that is not JSON. The handlers run it first, outside every \<open>try\<close> (route.ts,
  lines 53 to 54 and 304 to 305; part_000, lines 22 to 23).
\<close>

datatype post_request = Unparsable | Parsed post_body

definition request_json :: "post_request \<Rightarrow> thrown + post_body" where
  "request_json request =
     (case request of
        Unparsable \<Rightarrow> Inl (Error ''SyntaxError'')
      | Parsed b \<Rightarrow> Inr b)"

text \<open>\<open>String.prototype.includes\<close>.\<close>

fun js_includes :: "string \<Rightarrow> string \<Rightarrow> bool" where
  "js_includes [] sub = (sub = [])"
| "js_includes (c # cs) sub = (take (length sub) (c # cs) = sub \<or> js_includes cs sub)"

text \<open>\<open>coreMessages\<close> (route.ts, lines 62 to 64 and 313 to 315; part_000, lines 31 to 33).\<close>

definition coreMessages_of :: "env \<Rightarrow> json list \<Rightarrow> core_message list" where
  "coreMessages_of e ms =
     filter (\<lambda>message. content_length (content message) > 0) (convertToCoreMessages e ms)"

text \<open>
  \<open>onFinish\<close> of \<open>route.ts\<close> (lines 166 to 178 and 531 to 546) tests the session of the
  request's entry; what \<open>saveChat\<close> throws is logged and dropped.
\<close>

definition onFinish_route ::
  "env \<Rightarrow> session \<Rightarrow> string \<Rightarrow> core_message list \<Rightarrow> core_message list \<Rightarrow> world \<Rightarrow> world" where
  "onFinish_route e session i coreMessages responseMessages w =
     (case live_user_id (Some session) of
        Some uid \<Rightarrow> snd (saveChat e i (coreMessages @ responseMessages) uid w)
      | None \<Rightarrow> w)"

text \<open>\<open>onFinish\<close> of part_000 (lines 253 to 267) calls \<open>auth()\<close> again.\<close>

definition onFinish_part ::
  "env \<Rightarrow> string \<Rightarrow> core_message list \<Rightarrow> core_message list \<Rightarrow> world \<Rightarrow> world" where
  "onFinish_part e i coreMessages responseMessages w =
     (case auth e w of
        (currentSession, w1) \<Rightarrow>
          (case live_user_id currentSession of
             Some uid \<Rightarrow> snd (saveChat e i (coreMessages @ responseMessages) uid w1)
           | None \<Rightarrow> w1))"

text \<open>The \<open>catch\<close> of \<open>POST\<close> in \<open>route.ts\<close> (lines 187 to 209 and 555 to 579).\<close>

definition error_response :: "thrown \<Rightarrow> response" where
  "error_response err =
     (case err of
        Error msg \<Rightarrow>
          if js_includes msg ''permission denied'' \<or> js_includes msg ''API key''
             \<or> js_includes msg ''quota''
          then Response 403 (JsonBody (error_payload (''AI service error: '' @ msg)))
          else if js_includes msg ''model'' \<and> js_includes msg ''not found''
          then Response 400 (JsonBody (error_payload (''AI model error: '' @ msg)))
          else Response 500 (JsonBody (error_payload (''Internal server error: '' @ msg)))
      | NonError \<Rightarrow>
          Response 500
            (JsonBody (error_payload ''An error occurred while processing your request.'')))"

text \<open>
  \<open>POST\<close> of \<open>route.ts\<close> (lines 52 to 210 and 303 to 580). The body is parsed
  before \<open>auth()\<close> is called; only \<open>streamText\<close> is inside the \<open>try\<close>. The two
  revisions differ in their \<open>tools\<close> only.
\<close>

definition POST_route ::
  "(env \<Rightarrow> tool_call \<Rightarrow> world \<Rightarrow> (thrown + json) \<times> world) \<Rightarrow>
   env \<Rightarrow> post_request \<Rightarrow> model_run \<Rightarrow> world \<Rightarrow> (thrown + response) \<times> world" where
  "POST_route tools e request run w =
     (case request_json request of
        Inl t \<Rightarrow> (Inl t, w)
      | Inr b \<Rightarrow>
          (case auth e w of
             (None, w1) \<Rightarrow> (Inr (Response 401 (TextBody ''Unauthorized'')), w1)
           | (Some session, w1) \<Rightarrow>
               (let coreMessages = coreMessages_of e (body_messages b);
                    w2 = logged (CallStreamText coreMessages) w1
                in case run of
                     Rejects t \<Rightarrow> (Inr (error_response t), w2)
                   | Streams cs fin \<Rightarrow>
                       (case run_tools (tools e) cs w2 of
                          (results, w3) \<Rightarrow>
                            (Inr (DataStreamResponse results),
                             case fin of
                               None \<Rightarrow> w3
                             | Some responseMessages \<Rightarrow>
                                 onFinish_route e session (body_id b) coreMessages
                                   responseMessages w3)))))"

definition POST_route1 ::
  "env \<Rightarrow> post_request \<Rightarrow> model_run \<Rightarrow> world \<Rightarrow> (thrown + response) \<times> world" where
  "POST_route1 = POST_route tools_route1"

definition POST_route2 ::
  "env \<Rightarrow> post_request \<Rightarrow> model_run \<Rightarrow> world \<Rightarrow> (thrown + response) \<times> world" where
  "POST_route2 = POST_route tools_route2"

text \<open>
  \<open>POST\<close> of part_000 (lines 21 to 279): the same parse before \<open>auth()\<close>, and no
  \<open>try\<close> around \<open>streamText\<close>, so what it throws, the handler throws.
\<close>

definition POST_part ::
  "env \<Rightarrow> post_request \<Rightarrow> model_run \<Rightarrow> world \<Rightarrow> (thrown + response) \<times> world" where
  "POST_part e request run w =
     (case request_json request of
        Inl t \<Rightarrow> (Inl t, w)
      | Inr b \<Rightarrow>
          (case auth e w of
             (None, w1) \<Rightarrow> (Inr (Response 401 (TextBody ''Unauthorized'')), w1)
           | (Some session, w1) \<Rightarrow>
               (let coreMessages = coreMessages_of e (body_messages b);
                    w2 = logged (CallStreamText coreMessages) w1
                in case run of
                     Rejects t \<Rightarrow> (Inl t, w2)
                   | Streams cs fin \<Rightarrow>
                       (case run_tools (tools_part e) cs w2 of
                          (results, w3) \<Rightarrow>
                            (Inr (DataStreamResponse results),
                             case fin of
                               None \<Rightarrow> w3
                             | Some responseMessages \<Rightarrow>
                                 onFinish_part e (body_id b) coreMessages
                                   responseMessages w3)))))"

subsection \<open>\<open>DELETE\<close>\<close>

text \<open>
  The argument is \<open>searchParams.get("id")\<close>: \<open>None\<close> when the URL has no \<open>id\<close>. The
  test \<open>!id\<close> also holds of the empty string.

  route.ts, lines 212 to 264 and 582 to 636.
\<close>

definition DELETE_route :: "env \<Rightarrow> string option \<Rightarrow> world \<Rightarrow> response \<times> world" where
  "DELETE_route e idParam w =
     (case idParam of
        None \<Rightarrow> (Response 400 (JsonBody (error_payload ''Chat ID is required'')), w)
      | Some i \<Rightarrow>
          if i = [] then (Response 400 (JsonBody (error_payload ''Chat ID is required'')), w)
          else
            (case auth e w of
               (session, w1) \<Rightarrow>
                 (case live_user_id session of
                    None \<Rightarrow> (Response 401 (JsonBody (error_payload ''Unauthorized'')), w1)
                  | Some uid \<Rightarrow>
                      (case getChatById e i w1 of
                         (Inl t, w2) \<Rightarrow>
                           (Response 500 (JsonBody (error_payload
                              ''An internal error occurred while deleting the chat.'')), w2)
                       | (Inr None, w2) \<Rightarrow>
                           (Response 404 (JsonBody (error_payload ''Chat not found'')), w2)
                       | (Inr (Some c), w2) \<Rightarrow>
                           if userId c \<noteq> uid
                           then (Response 403 (JsonBody (error_payload ''Forbidden'')), w2)
                           else
                             (case deleteChatById e i w2 of
                                (Inl t, w3) \<Rightarrow>
                                  (Response 500 (JsonBody (error_payload
                                     ''An internal error occurred while deleting the chat.'')),
                                   w3)
                              | (Inr _, w3) \<Rightarrow>
                                  (Response 200
                                     (JsonBody (JObj [(''message'',
                                        JStr ''Chat deleted successfully'')])), w3))))))"

text \<open>
  part_000, lines 281 to 318. The session test is \<open>!session || !session.user\<close>, and the
  owner is compared with \<open>session.user.id\<close>, which may be \<open>undefined\<close>.
\<close>

definition DELETE_part :: "env \<Rightarrow> string option \<Rightarrow> world \<Rightarrow> response \<times> world" where
  "DELETE_part e idParam w =
     (case idParam of
        None \<Rightarrow> (Response 404 (TextBody ''Not Found''), w)
      | Some i \<Rightarrow>
          if i = [] then (Response 404 (TextBody ''Not Found''), w)
          else
            (case auth e w of
               (session, w1) \<Rightarrow>
                 (case Option.bind session session_user of
                    None \<Rightarrow> (Response 401 (TextBody ''Unauthorized''), w1)
                  | Some u \<Rightarrow>
                      (case getChatById e i w1 of
                         (Inl t, w2) \<Rightarrow>
                           (Response 500 (TextBody
                              ''An error occurred while processing your request''), w2)
                       | (Inr None, w2) \<Rightarrow> (Response 404 (TextBody ''Not Found''), w2)
                       | (Inr (Some c), w2) \<Rightarrow>
                           if Some (userId c) \<noteq> user_id u
                           then (Response 401 (TextBody ''Unauthorized''), w2)
                           else
                             (case deleteChatById e i w2 of
                                (Inl t, w3) \<Rightarrow>
                                  (Response 500 (TextBody
                                     ''An error occurred while processing your request''), w3)
                              | (Inr _, w3) \<Rightarrow>
                                  (Response 200 (TextBody ''Chat deleted''), w3))))))"

subsection \<open>Observations on results and effects\<close>

text \<open>
  The predicates the properties below are stated with. \<open>paid w rid\<close>: the table of
  \<open>w\<close> has a reservation \<open>rid\<close> whose \<open>hasCompletedPayment\<close> is true.
\<close>

definition paid :: "world \<Rightarrow> string \<Rightarrow> bool" where
  "paid w rid =
     (case map_of (reservations w) rid of
        Some r \<Rightarrow> hasCompletedPayment r
      | None \<Rightarrow> False)"

text \<open>
  A refusal is an object with the one property \<open>error\<close>, a string; in particular it has
  none of the fields of a boarding pass.
\<close>

fun is_error_payload :: "json \<Rightarrow> bool" where
  "is_error_payload (JObj [(k, JStr m)]) = (k = ''error'')"
| "is_error_payload _ = False"

definition boarding_fields :: "string list" where
  "boarding_fields = [''passengerName'', ''flightNumber'', ''seat'', ''departure'', ''arrival'']"

definition refusal :: "json \<Rightarrow> bool" where
  "refusal res \<longleftrightarrow>
     is_error_payload res \<and> \<not> list_ex (\<lambda>k. k \<in> set boarding_fields) (keys res)"

text \<open>The HTTP status of a response; the data stream is sent with 200.\<close>

fun status :: "response \<Rightarrow> nat" where
  "status (Response n b) = n"
| "status (DataStreamResponse rs) = 200"

text \<open>
  The calls an execution added to the log, and "from \<open>w\<close> to \<open>w'\<close> nothing was persisted":
  both tables are as before, the log was only extended, and no added call is a
  \<open>saveChat\<close>, a \<open>createReservation\<close> or a \<open>deleteChatById\<close>.
\<close>

definition new_calls :: "world \<Rightarrow> world \<Rightarrow> call list" where
  "new_calls w w' = drop (length (calls w)) (calls w')"

fun persistence_call :: "call \<Rightarrow> bool" where
  "persistence_call (CallSaveChat i ms u) = True"
| "persistence_call (CallCreateReservation i u d) = True"
| "persistence_call (CallDeleteChatById i) = True"
| "persistence_call _ = False"

definition no_persistence :: "world \<Rightarrow> world \<Rightarrow> bool" where
  "no_persistence w w' \<longleftrightarrow>
     reservations w' = reservations w \<and> chats w' = chats w
     \<and> take (length (calls w)) (calls w') = calls w
     \<and> \<not> list_ex persistence_call (new_calls w w')"

text \<open>
  What a successful \<open>createReservation\<close> leaves, from the world \<open>w\<close> to the world
  \<open>w'\<close> with the result \<open>res\<close>: the id is the one \<open>generateUUID\<close> gave and no row had
  it; the table grew by exactly the row \<open>{id, userId, details}\<close>, unpaid; the stored
  details fit the schema and their \<open>totalPriceInUSD\<close> is the pricing function's answer on
  the same \<open>props\<close>; the result is \<open>{ id, ...details }\<close>.
\<close>

definition created :: "env \<Rightarrow> props \<Rightarrow> string \<Rightarrow> world \<Rightarrow> world \<Rightarrow> json \<Rightarrow> bool" where
  "created e p uid w w' res \<longleftrightarrow>
     (let rid = fst (generateUUID w);
          d = with_price p (price_of e p)
      in rid \<notin> set (map fst (reservations w))
         \<and> reservations w' =
             reservations w @
             [(rid, \<lparr>reservation_id = rid, reservation_userId = uid, details = details_json d,
                     hasCompletedPayment = False\<rparr>)]
         \<and> ReservationDetailsSchema (details_json d) = Some d
         \<and> totalPriceInUSD d = price_of e p
         \<and> res = JObj ((''id'', JStr rid) # details_fields d)
         \<and> chats w' = chats w)"

text \<open>
  The calls that write the chat table, and the relation "from \<open>w\<close> to \<open>w'\<close> the chat
  table is unchanged and the calls added to the log write no chat".
\<close>

fun chat_write :: "call \<Rightarrow> bool" where
  "chat_write (CallSaveChat i ms u) = True"
| "chat_write (CallDeleteChatById i) = True"
| "chat_write _ = False"

definition keeps_chats :: "world \<Rightarrow> world \<Rightarrow> bool" where
  "keeps_chats w w' \<longleftrightarrow>
     chats w' = chats w
     \<and> take (length (calls w)) (calls w') = calls w
     \<and> \<not> list_ex chat_write (new_calls w w')"



text \<open>
  The session that \<open>auth()\<close> in \<open>onFinish\<close> of part_000 resolves to, when the request
  with the body \<open>b\<close> arrives in the world \<open>w\<close> and the model invokes the tools \<open>cs\<close>:
  the read that follows those of the entry and of the tools.
\<close>

definition completion_session ::
  "env \<Rightarrow> post_body \<Rightarrow> tool_call list \<Rightarrow> world \<Rightarrow> session option" where
  "completion_session e b cs w =
     session_at e
       (auth_count
          (snd (run_tools (tools_part e) cs
                  (logged (CallStreamText (coreMessages_of e (body_messages b)))
                     (snd (auth e w))))))"

text \<open>
  What a completed \<open>POST\<close> that saves leaves, from \<open>w\<close> to \<open>w'\<close>: the chat under the
  request's id holds the converted input messages without the empty ones, then the
  response messages \<open>rm\<close>, owned by \<open>uid\<close>, every other chat being as before; the
  handler's first two calls are \<open>auth()\<close> and \<open>streamText\<close> on that same filtered list,
  and its last call is the \<open>saveChat\<close>.
\<close>

definition chat_saved ::
  "env \<Rightarrow> post_body \<Rightarrow> core_message list \<Rightarrow> string \<Rightarrow> world \<Rightarrow> world \<Rightarrow> bool" where
  "chat_saved e b rm uid w w' \<longleftrightarrow>
     (let cm = filter (\<lambda>m. content_length (content m) > 0)
                 (convertToCoreMessages e (body_messages b))
      in chats w' = AList.update (body_id b) \<lparr>messages = cm @ rm, userId = uid\<rparr> (chats w)
         \<and> map_of (chats w') (body_id b) = Some \<lparr>messages = cm @ rm, userId = uid\<rparr>
         \<and> take 2 (new_calls w w') = [CallAuth, CallStreamText cm]
         \<and> last (new_calls w w') = CallSaveChat (body_id b) (cm @ rm) uid)"

subsection \<open>Examples\<close>

text \<open>
  Alice's reservations \<open>r1\<close> (unpaid) and \<open>r2\<close> (paid), her chat \<open>c1\<close>, and
  collaborators that never throw, resolve every \<open>auth()\<close> to the given session and
  price every reservation at 420.
\<close>

definition sfo :: place where
  "sfo = \<lparr>cityName = ''San Francisco'', airportCode = ''SFO'',
          timestamp = ''2025-04-01T08:00:00Z'', gate = ''A1'', terminal = ''1''\<rparr>"

definition jfk :: place where
  "jfk = \<lparr>cityName = ''New York'', airportCode = ''JFK'',
          timestamp = ''2025-04-01T16:30:00Z'', gate = ''B7'', terminal = ''4''\<rparr>"

definition alice_props :: props where
  "alice_props = \<lparr>seats = [''12A'', ''12B''], flightNumber = ''BA142'', departure = sfo,
                  arrival = jfk, passengerName = ''Alice''\<rparr>"

definition user_session :: "string \<Rightarrow> session" where
  "user_session uid = \<lparr>session_user = Some \<lparr>user_id = Some uid\<rparr>\<rparr>"

definition idless_session :: session where
  "idless_session = \<lparr>session_user = Some \<lparr>user_id = None\<rparr>\<rparr>"

definition text_message :: "json \<Rightarrow> core_message" where
  "text_message m = \<lparr>role = ''user'', content = Text (case m of JStr s \<Rightarrow> s | _ \<Rightarrow> [])\<rparr>"

definition quiet_env :: "session option \<Rightarrow> env" where
  "quiet_env s =
     \<lparr>session_at = (\<lambda>n. s), rejects = (\<lambda>c. None), price_of = (\<lambda>p. 420),
      weather_of = (\<lambda>la lo. \<lparr>ok = True, statusText = ''OK'', weather_json = JNull\<rparr>),
      flight_status_of = (\<lambda>f d. JNull), flight_search_of = (\<lambda>a b. JNull),
      seat_selection_of = (\<lambda>f. JNull), convertToCoreMessages = map text_message,
      numberToString = (\<lambda>x. ''0'')\<rparr>"

definition example_world :: world where
  "example_world =
     \<lparr>reservations =
        [(''r1'', \<lparr>reservation_id = ''r1'', reservation_userId = ''alice'',
                  details = details_json (with_price alice_props 420),
                  hasCompletedPayment = False\<rparr>),
         (''r2'', \<lparr>reservation_id = ''r2'', reservation_userId = ''alice'',
                  details = details_json (with_price alice_props 420),
                  hasCompletedPayment = True\<rparr>)],
      chats = [(''c1'', \<lparr>messages = [\<lparr>role = ''user'', content = Text ''hello''\<rparr>],
                        userId = ''alice''\<rparr>)],
      auth_count = 0, calls = []\<rparr>"

text \<open>Parameters for \<open>displayBoardingPass\<close> that name another passenger and flight.\<close>

definition forged_params :: boardingPassParams where
  "forged_params =
     \<lparr>reservationId = ''r2'', bp_passengerName = ''Mallory'', bp_flightNumber = ''ZZ999'',
      seat = ''1A'', bp_departure = JObj [], bp_arrival = JObj []\<rparr>"

text \<open>A paid reservation whose stored details do not fit the schema.\<close>

definition malformed_world :: world where
  "malformed_world =
     \<lparr>reservations =
        [(''r3'', \<lparr>reservation_id = ''r3'', reservation_userId = ''alice'',
                  details = JObj [(''passengerName'', JNum 42), (''seats'', JArr [])],
                  hasCompletedPayment = True\<rparr>)],
      chats = [], auth_count = 0, calls = []\<rparr>"


text \<open>A request with one empty message, and the model's reply.\<close>

definition reply_message :: core_message where
  "reply_message = \<lparr>role = ''assistant'', content = Text ''Where would you like to fly?''\<rparr>"

definition hi_body :: post_body where
  "hi_body = \<lparr>body_id = ''c1'', body_messages = [JStr ''hi'', JStr '''']\<rparr>"

section \<open>Properties\<close>

subsection \<open>The schema accepts what \<open>createReservation\<close> stores\<close>

lemma those_map_JStr: "those (map ((\<lambda>x. z_string (Some x)) \<circ> JStr) xs) = Some xs"
  by (induction xs) simp_all

lemma z_place_place_json: "z_place (Some (place_json p)) = Some p"
  by (simp add: place_json_def)

lemma ReservationDetailsSchema_details_json:
  "ReservationDetailsSchema (details_json d) = Some d"
  by (simp add: details_json_def details_fields_def props_fields_def those_map_JStr
      z_place_place_json)

subsection \<open>No boarding pass before payment\<close>

lemma refusal_error_payload: "refusal (error_payload m)"
  by (simp add: refusal_def error_payload_def boarding_fields_def)

lemma displayBoardingPass_route1_unpaid:
  "\<not> paid w rid \<Longrightarrow> refusal (fst (displayBoardingPass_route1 e rid w))"
  by (auto simp: paid_def displayBoardingPass_route1_def getReservationById_def external_def
      refusal_error_payload split: option.splits)

lemma displayBoardingPass_route2_unpaid:
  "\<not> paid w rid \<Longrightarrow> refusal (fst (displayBoardingPass_route2 e rid w))"
  by (auto simp: paid_def displayBoardingPass_route2_def getReservationById_def external_def
      refusal_error_payload split: option.splits)

lemma displayBoardingPass_part_unpaid:
  "\<not> paid w (reservationId ps) \<Longrightarrow> refusal (fst (displayBoardingPass_part e ps w))"
  by (auto simp: paid_def displayBoardingPass_part_def getReservationById_def external_def
      refusal_error_payload split: option.splits)

text \<open>
  Claim C1. In each of the three revisions, when the stored reservation's
  \<open>hasCompletedPayment\<close> is false (or there is no such reservation),
  \<open>displayBoardingPass\<close> returns the object \<open>{ error }\<close> and none of the fields
  \<open>passengerName\<close>, \<open>flightNumber\<close>, \<open>seat\<close>, \<open>departure\<close>, \<open>arrival\<close>: so a
  result that carries boarding data is returned only when the flag is true. This holds
  whatever the stored details are and also when the query throws.
\<close>

theorem displayBoardingPass_requires_payment:
  "(\<not> paid w rid \<longrightarrow> refusal (fst (displayBoardingPass_route1 e rid w)))
   \<and> (\<not> paid w rid \<longrightarrow> refusal (fst (displayBoardingPass_route2 e rid w)))
   \<and> (\<not> paid w (reservationId ps) \<longrightarrow> refusal (fst (displayBoardingPass_part e ps w)))"
  using displayBoardingPass_route1_unpaid displayBoardingPass_route2_unpaid
    displayBoardingPass_part_unpaid by blast

text \<open>The reservation \<open>r1\<close> of the example is unpaid: all three revisions refuse.\<close>

lemma r1_unpaid: "\<not> paid example_world ''r1''"
  by (simp add: paid_def example_world_def)

theorem displayBoardingPass_requires_payment_witness:
  "\<not> paid example_world ''r1''
   \<and> refusal (fst (displayBoardingPass_route1 (quiet_env None) ''r1'' example_world))
   \<and> refusal (fst (displayBoardingPass_route2 (quiet_env None) ''r1'' example_world))
   \<and> refusal (fst (displayBoardingPass_part (quiet_env None)
        (forged_params\<lparr>reservationId := ''r1''\<rparr>) example_world))"
  using displayBoardingPass_requires_payment [of example_world "''r1''" "quiet_env None"
      "forged_params\<lparr>reservationId := ''r1''\<rparr>"] r1_unpaid
  by simp

subsection \<open>What a boarding pass is built from\<close>

lemmas query_defs = getReservationById_def getChatById_def external_def logged_def auth_def

text \<open>
  The first revision of \<open>route.ts\<close> validates first: on a paid reservation the result
  is the refusal "Invalid reservation details structure in database." when the stored
  details fail the schema, and otherwise every field comes from the validated data.
\<close>

lemma displayBoardingPass_route1_paid:
  assumes "rejects e (CallGetReservationById rid) = None"
    and "map_of (reservations w) rid = Some r" and "hasCompletedPayment r"
  shows "fst (displayBoardingPass_route1 e rid w) =
     (case ReservationDetailsSchema (details r) of
        None \<Rightarrow> error_payload ''Invalid reservation details structure in database.''
      | Some d \<Rightarrow>
          JObj [(''reservationId'', JStr (reservation_id r)),
                (''passengerName'', JStr (passengerName d)),
                (''flightNumber'', JStr (flightNumber d)),
                (''seat'', JStr (join '', '' (seats d))),
                (''departure'', place_json (departure d)),
                (''arrival'', place_json (arrival d))])"
  using assms
  by (simp add: displayBoardingPass_route1_def query_defs split: option.splits)

text \<open>
  part_000 returns its own parameters on every paid reservation: the stored details are
  never read.
\<close>

lemma displayBoardingPass_part_paid:
  assumes "rejects e (CallGetReservationById (reservationId ps)) = None"
    and "map_of (reservations w) (reservationId ps) = Some r" and "hasCompletedPayment r"
  shows "fst (displayBoardingPass_part e ps w) =
     JObj (boardingPassParams_fields ps @
           [(''status'', JStr ''Displayed (using potentially unverified details)'')])"
  using assms
  by (simp add: displayBoardingPass_part_def query_defs)

text \<open>
  Claim C2, at an input where part_000 departs from it. The reservation \<open>r2\<close> is paid
  and its stored details are valid, with the passenger "Alice"; called with parameters
  that name "Mallory" on flight "ZZ999", \<open>displayBoardingPass\<close> of part_000 answers
  with those parameters, not with the stored record.
\<close>

theorem displayBoardingPass_part_forged:
  "paid example_world ''r2''
   \<and> map_option (\<lambda>r. map_option passengerName (ReservationDetailsSchema (details r)))
        (map_of (reservations example_world) ''r2'') = Some (Some ''Alice'')
   \<and> fst (displayBoardingPass_part (quiet_env None) forged_params example_world) =
       JObj [(''reservationId'', JStr ''r2''), (''passengerName'', JStr ''Mallory''),
             (''flightNumber'', JStr ''ZZ999''), (''seat'', JStr ''1A''),
             (''departure'', JObj []), (''arrival'', JObj []),
             (''status'', JStr ''Displayed (using potentially unverified details)'')]"
  by (simp add: paid_def example_world_def ReservationDetailsSchema_details_json
      with_price_def alice_props_def displayBoardingPass_part_def query_defs quiet_env_def
      forged_params_def boardingPassParams_fields_def)

text \<open>
  The second revision of \<open>route.ts\<close> reads the stored record but does not validate it:
  on stored details whose \<open>passengerName\<close> is a number and which lack the flight and
  both places, it returns a boarding pass; the first revision refuses.
\<close>

lemma displayBoardingPass_route2_unvalidated:
  "ReservationDetailsSchema (details (the (map_of (reservations malformed_world) ''r3''))) = None
   \<and> fst (displayBoardingPass_route2 (quiet_env None) ''r3'' malformed_world) =
       JObj [(''reservationId'', JStr ''r3''), (''passengerName'', JNum 42),
             (''seat'', JStr [])]
   \<and> fst (displayBoardingPass_route1 (quiet_env None) ''r3'' malformed_world) =
       error_payload ''Invalid reservation details structure in database.''"
  by (simp add: malformed_world_def displayBoardingPass_route2_def
      displayBoardingPass_route1_def boardingPassData_route2_def js_join_def
      query_defs quiet_env_def)

subsection \<open>\<open>DELETE\<close> without an id\<close>

text \<open>
  Claim C9, as amended. A \<open>DELETE\<close> whose URL has no \<open>id\<close> is answered before anything
  else happens: the world is returned as it was, so \<open>auth()\<close> was not called and no
  table was read. The answer is status 400 with \<open>{ error: "Chat ID is required" }\<close> in
  both revisions of \<open>route.ts\<close>, and status 404 with the text "Not Found" in part_000.
\<close>

theorem DELETE_without_id:
  "DELETE_route e None w = (Response 400 (JsonBody (error_payload ''Chat ID is required'')), w)
   \<and> DELETE_part e None w = (Response 404 (TextBody ''Not Found''), w)"
  by (simp add: DELETE_route_def DELETE_part_def)

theorem DELETE_without_id_witness:
  "DELETE_route (quiet_env None) None example_world =
     (Response 400 (JsonBody (JObj [(''error'', JStr ''Chat ID is required'')])), example_world)
   \<and> DELETE_part (quiet_env None) None example_world =
     (Response 404 (TextBody ''Not Found''), example_world)"
  using DELETE_without_id [of "quiet_env None" example_world]
  by (simp add: error_payload_def)

text \<open>Claim C9 as stated fails on part_000: the status is not 400.\<close>

theorem DELETE_part_without_id_not_400:
  "status (fst (DELETE_part (quiet_env None) None example_world)) \<noteq> 400"
  by (simp add: DELETE_part_def)

subsection \<open>Requests without a session\<close>














subsection \<open>\<open>DELETE\<close> by a user who does not own the chat\<close>

lemma DELETE_route_forbidden:
  assumes "i \<noteq> []" "live_user_id (session_at e (auth_count w)) = Some uid"
    "rejects e (CallGetChatById i) = None" "map_of (chats w) i = Some c" "userId c \<noteq> uid"
  shows "DELETE_route e (Some i) w =
     (Response 403 (JsonBody (error_payload ''Forbidden'')),
      logged (CallGetChatById i) (logged CallAuth (w\<lparr>auth_count := Suc (auth_count w)\<rparr>)))"
  using assms by (simp add: DELETE_route_def query_defs)

lemma DELETE_part_forbidden:
  assumes "i \<noteq> []" "live_user_id (session_at e (auth_count w)) = Some uid"
    "rejects e (CallGetChatById i) = None" "map_of (chats w) i = Some c" "userId c \<noteq> uid"
  shows "DELETE_part e (Some i) w =
     (Response 401 (TextBody ''Unauthorized''),
      logged (CallGetChatById i) (logged CallAuth (w\<lparr>auth_count := Suc (auth_count w)\<rparr>)))"
  using assms
  by (auto simp: DELETE_part_def query_defs live_user_id_def split: option.splits if_splits)

lemma no_persistence_lookup:
  "no_persistence w
     (logged (CallGetChatById i) (logged CallAuth (w\<lparr>auth_count := Suc (auth_count w)\<rparr>)))"
  by (simp add: no_persistence_def logged_def new_calls_def)

text \<open>
  Claim C7, as amended. A user with a live id \<open>uid\<close> asks to delete an existing chat
  whose owner is someone else, and the lookup of the chat does not throw. Both revisions
  of \<open>route.ts\<close> answer 403 "Forbidden"; part_000 answers 401 "Unauthorized". In all
  three the chat table is as before and \<open>deleteChatById\<close> is not called.
\<close>

theorem DELETE_by_other_user:
  assumes "i \<noteq> []" "live_user_id (session_at e (auth_count w)) = Some uid"
    "rejects e (CallGetChatById i) = None" "map_of (chats w) i = Some c" "userId c \<noteq> uid"
  shows "(fst (DELETE_route e (Some i) w) = Response 403 (JsonBody (error_payload ''Forbidden''))
          \<and> no_persistence w (snd (DELETE_route e (Some i) w)))
       \<and> (fst (DELETE_part e (Some i) w) = Response 401 (TextBody ''Unauthorized'')
          \<and> no_persistence w (snd (DELETE_part e (Some i) w)))"
  using DELETE_route_forbidden [OF assms] DELETE_part_forbidden [OF assms]
  by (simp add: no_persistence_lookup)

theorem DELETE_by_other_user_witness:
  "status (fst (DELETE_route (quiet_env (Some (user_session ''bob''))) (Some ''c1'')
      example_world)) = 403
   \<and> status (fst (DELETE_part (quiet_env (Some (user_session ''bob''))) (Some ''c1'')
      example_world)) = 401
   \<and> chats (snd (DELETE_route (quiet_env (Some (user_session ''bob''))) (Some ''c1'')
      example_world)) = chats example_world
   \<and> chats (snd (DELETE_part (quiet_env (Some (user_session ''bob''))) (Some ''c1'')
      example_world)) = chats example_world"
  using DELETE_by_other_user [of "''c1''" "quiet_env (Some (user_session ''bob''))"
      example_world "''bob''" "\<lparr>messages = [\<lparr>role = ''user'', content = Text ''hello''\<rparr>],
                        userId = ''alice''\<rparr>"]
  by (simp add: quiet_env_def user_session_def live_user_id_def example_world_def
      no_persistence_def)

text \<open>Claim C7 as stated fails on part_000: the status is not 403.\<close>

theorem DELETE_part_by_other_user_not_403:
  "status (fst (DELETE_part (quiet_env (Some (user_session ''bob''))) (Some ''c1'')
      example_world)) \<noteq> 403"
  by (simp add: DELETE_part_def query_defs quiet_env_def user_session_def example_world_def)

subsection \<open>\<open>createReservation\<close> without a live session\<close>

text \<open>The id \<open>generateUUID\<close> gives is not one of the table.\<close>

lemma length_le_longest:
  "s \<in> set seen \<Longrightarrow> length s \<le> foldr (\<lambda>s n. max (length s) n) seen 0"
  by (induction seen) auto

lemma fresh_id_fresh: "fresh_id seen \<notin> set seen"
proof
  assume "fresh_id seen \<in> set seen"
  then have "length (fresh_id seen) \<le> foldr (\<lambda>s n. max (length s) n) seen 0"
    by (rule length_le_longest)
  then show False by (simp add: fresh_id_def)
qed

lemmas createReservation_defs =
  generateReservationPrice_def generateUUID_def createReservation_def external_def logged_def
  auth_def

lemma createReservation_route_no_user:
  assumes "live_user_id (session_at e (auth_count w)) = None"
  shows "createReservation_route e p w =
     (case rejects e (CallGenerateReservationPrice p) of
        Some t \<Rightarrow> (Inl t, logged (CallGenerateReservationPrice p) w)
      | None \<Rightarrow>
          (Inr (error_payload ''User session lost. Cannot create reservation.''),
           w\<lparr>auth_count := Suc (auth_count w),
             calls := calls w @ [CallGenerateReservationPrice p, CallAuth, CallGenerateUUID]\<rparr>))"
  using assms
  by (simp add: createReservation_route_def createReservation_defs split: option.splits)

lemma createReservation_part_no_user:
  assumes "live_user_id (session_at e (auth_count w)) = None"
  shows "createReservation_part e p w =
     (case rejects e (CallGenerateReservationPrice p) of
        Some t \<Rightarrow>
          (error_payload ''Failed to create reservation.'',
           logged (CallGenerateReservationPrice p) w)
      | None \<Rightarrow>
          (error_payload ''User is not signed in to perform this action!'',
           w\<lparr>auth_count := Suc (auth_count w),
             calls := calls w @ [CallGenerateReservationPrice p, CallAuth, CallGenerateUUID]\<rparr>))"
  using assms
  by (simp add: createReservation_part_def createReservation_defs split: option.splits)

text \<open>
  Claim C4. The session \<open>createReservation\<close> re-reads is absent, or has no user, or
  no id, or an empty id. Then no reservation is written in any revision: the tables are
  as before and \<open>createReservation\<close> of the queries is not called. In \<open>route.ts\<close> the
  tool returns \<open>{ error: "User session lost. Cannot create reservation." }\<close> in every
  execution that reaches the re-check, that is, whenever the pricing call made before it
  returned; when that call throws, the tool throws the same value (nothing catches it).
  In part_000 the tool always returns an \<open>{ error }\<close> object: "User is not signed in
  to perform this action!", or "Failed to create reservation." when the pricing call
  threw.
\<close>

theorem createReservation_without_session:
  assumes "live_user_id (session_at e (auth_count w)) = None"
  shows "no_persistence w (snd (createReservation_route e p w))
       \<and> (case fst (createReservation_route e p w) of
             Inl t \<Rightarrow> rejects e (CallGenerateReservationPrice p) = Some t
           | Inr res \<Rightarrow>
               rejects e (CallGenerateReservationPrice p) = None
               \<and> res = error_payload ''User session lost. Cannot create reservation.'')
       \<and> no_persistence w (snd (createReservation_part e p w))
       \<and> fst (createReservation_part e p w) =
           error_payload
             (if rejects e (CallGenerateReservationPrice p) = None
              then ''User is not signed in to perform this action!''
              else ''Failed to create reservation.'')"
  by (simp add: createReservation_route_no_user [OF assms]
      createReservation_part_no_user [OF assms] no_persistence_def new_calls_def logged_def
      split: option.splits)

theorem createReservation_without_session_witness:
  "live_user_id (session_at (quiet_env (Some idless_session)) (auth_count example_world)) = None
   \<and> reservations (snd (createReservation_route (quiet_env (Some idless_session)) alice_props
        example_world))
       = reservations example_world
   \<and> fst (createReservation_route (quiet_env (Some idless_session)) alice_props
        example_world)
       = Inr (JObj [(''error'', JStr ''User session lost. Cannot create reservation.'')])
   \<and> reservations (snd (createReservation_part (quiet_env (Some idless_session)) alice_props
        example_world))
       = reservations example_world
   \<and> fst (createReservation_part (quiet_env (Some idless_session)) alice_props
        example_world)
       = JObj [(''error'', JStr ''User is not signed in to perform this action!'')]"
  using createReservation_without_session [of "quiet_env (Some idless_session)" example_world
      alice_props]
  by (simp add: quiet_env_def idless_session_def live_user_id_def no_persistence_def
      error_payload_def
      split: sum.splits)

subsection \<open>A successful \<open>createReservation\<close>\<close>

lemma update_fresh: "k \<notin> set (map fst al) \<Longrightarrow> AList.update k v al = al @ [(k, v)]"
  by (induction al) auto

lemma update_fresh_id:
  "AList.update (fresh_id (map fst al)) v al = al @ [(fresh_id (map fst al), v)]"
  by (rule update_fresh) (rule fresh_id_fresh)

lemma fresh_id_not_a_key: "fresh_id (map fst al) \<notin> fst ` set al"
  using fresh_id_fresh [of "map fst al"] by simp

lemma createReservation_route_live:
  assumes "live_user_id (session_at e (auth_count w)) = Some uid"
  shows "createReservation_route e p w =
     (let rid = fresh_id (map fst (reservations w));
          d = with_price p (price_of e p);
          ins = CallCreateReservation rid uid (details_json d);
          cs = calls w @ [CallGenerateReservationPrice p, CallAuth, CallGenerateUUID, ins]
      in case rejects e (CallGenerateReservationPrice p) of
           Some t \<Rightarrow> (Inl t, logged (CallGenerateReservationPrice p) w)
         | None \<Rightarrow>
             (case rejects e ins of
                Some t \<Rightarrow> (Inl t, w\<lparr>auth_count := Suc (auth_count w), calls := cs\<rparr>)
              | None \<Rightarrow>
                  (Inr (JObj ((''id'', JStr rid) # details_fields d)),
                   w\<lparr>reservations :=
                        reservations w @
                        [(rid, \<lparr>reservation_id = rid, reservation_userId = uid,
                                details = details_json d, hasCompletedPayment = False\<rparr>)],
                     auth_count := Suc (auth_count w), calls := cs\<rparr>)))"
  using assms
  by (simp add: createReservation_route_def createReservation_defs Let_def update_fresh_id split: option.splits)

lemma createReservation_part_live:
  assumes "live_user_id (session_at e (auth_count w)) = Some uid"
  shows "createReservation_part e p w =
     (let rid = fresh_id (map fst (reservations w));
          d = with_price p (price_of e p);
          ins = CallCreateReservation rid uid (details_json d);
          cs = calls w @ [CallGenerateReservationPrice p, CallAuth, CallGenerateUUID, ins]
      in case rejects e (CallGenerateReservationPrice p) of
           Some t \<Rightarrow>
             (error_payload ''Failed to create reservation.'',
              logged (CallGenerateReservationPrice p) w)
         | None \<Rightarrow>
             (case rejects e ins of
                Some t \<Rightarrow>
                  (error_payload ''Failed to create reservation.'',
                   w\<lparr>auth_count := Suc (auth_count w), calls := cs\<rparr>)
              | None \<Rightarrow>
                  (JObj ((''id'', JStr rid) # details_fields d),
                   w\<lparr>reservations :=
                        reservations w @
                        [(rid, \<lparr>reservation_id = rid, reservation_userId = uid,
                                details = details_json d, hasCompletedPayment = False\<rparr>)],
                     auth_count := Suc (auth_count w), calls := cs\<rparr>)))"
  using assms
  by (simp add: createReservation_part_def createReservation_defs Let_def update_fresh_id details_fields_def with_price_def props_fields_def
      split: option.splits)

lemma is_error_payload_error_payload: "is_error_payload (error_payload m)"
  by (simp add: error_payload_def)

text \<open>
  Claim C5. The re-read session has the live user id \<open>uid\<close>. In \<open>route.ts\<close> every
  execution that returns, and in part_000 every execution whose result is not an
  \<open>{ error }\<close> object, satisfies \<open>created\<close>: the persisted row has a fresh id, its
  stored price is \<open>generateReservationPrice\<close> of the same \<open>props\<close>, and the tool
  returns the persisted record \<open>{ id, ...props, totalPriceInUSD }\<close>. The freshness of the
  id rests on \<open>generateUUID\<close> as the spec describes it: the handler itself does not
  compare the id with the table.
\<close>

theorem createReservation_success:
  assumes "live_user_id (session_at e (auth_count w)) = Some uid"
  shows "(\<forall>res. fst (createReservation_route e p w) = Inr res \<longrightarrow>
            created e p uid w (snd (createReservation_route e p w)) res)
       \<and> (\<not> is_error_payload (fst (createReservation_part e p w)) \<longrightarrow>
            created e p uid w (snd (createReservation_part e p w))
              (fst (createReservation_part e p w)))"
  by (simp add: createReservation_route_live [OF assms] createReservation_part_live [OF assms]
      Let_def created_def generateUUID_def fresh_id_not_a_key
      ReservationDetailsSchema_details_json with_price_def is_error_payload_error_payload
      split: option.splits)

theorem createReservation_success_witness:
  "live_user_id (session_at (quiet_env (Some (user_session ''alice''))) (auth_count example_world))
     = Some ''alice''
   \<and> fst (createReservation_route (quiet_env (Some (user_session ''alice''))) alice_props
        example_world)
      = Inr (JObj ((''id'', JStr ''000'') # details_fields (with_price alice_props 420)))
   \<and> created (quiet_env (Some (user_session ''alice''))) alice_props ''alice'' example_world
       (snd (createReservation_route (quiet_env (Some (user_session ''alice''))) alice_props
          example_world))
       (JObj ((''id'', JStr ''000'') # details_fields (with_price alice_props 420)))
   \<and> \<not> is_error_payload (fst (createReservation_part (quiet_env (Some (user_session ''alice'')))
        alice_props example_world))
   \<and> created (quiet_env (Some (user_session ''alice''))) alice_props ''alice'' example_world
       (snd (createReservation_part (quiet_env (Some (user_session ''alice''))) alice_props
          example_world))
       (fst (createReservation_part (quiet_env (Some (user_session ''alice''))) alice_props
          example_world))"
proof -
  let ?e = "quiet_env (Some (user_session ''alice''))"
  have live: "live_user_id (session_at ?e (auth_count example_world)) = Some ''alice''"
    by (simp add: quiet_env_def user_session_def live_user_id_def)
  have route: "fst (createReservation_route ?e alice_props example_world)
      = Inr (JObj ((''id'', JStr ''000'') # details_fields (with_price alice_props 420)))"
    by (simp add: createReservation_route_live [OF live] Let_def)
      (simp add: quiet_env_def example_world_def fresh_id_def)
  have part: "\<not> is_error_payload (fst (createReservation_part ?e alice_props example_world))"
    by (simp add: createReservation_part_live [OF live] Let_def)
      (simp add: quiet_env_def details_fields_def props_fields_def)
  from createReservation_success [OF live, of alice_props] route part live
  show ?thesis by simp
qed

subsection \<open>Where the identity is checked again\<close>

lemma new_calls_append: "calls w' = calls w @ cs \<Longrightarrow> new_calls w w' = cs"
  by (simp add: new_calls_def)

lemma createReservation_route_calls:
  "new_calls w (snd (createReservation_route e p w)) =
     CallGenerateReservationPrice p #
     (case rejects e (CallGenerateReservationPrice p) of
        Some t \<Rightarrow> []
      | None \<Rightarrow>
          CallAuth # CallGenerateUUID #
          (case live_user_id (session_at e (auth_count w)) of
             None \<Rightarrow> []
           | Some uid \<Rightarrow>
               [CallCreateReservation (fst (generateUUID w)) uid
                  (details_json (with_price p (price_of e p)))]))"
proof (cases "live_user_id (session_at e (auth_count w))")
  case None
  then show ?thesis
    by (simp add: createReservation_route_no_user new_calls_def logged_def
        split: option.splits)
next
  case (Some uid)
  then show ?thesis
    by (simp add: createReservation_route_live Let_def new_calls_def logged_def
        generateUUID_def split: option.splits)
qed

lemma createReservation_part_calls:
  "new_calls w (snd (createReservation_part e p w)) =
     CallGenerateReservationPrice p #
     (case rejects e (CallGenerateReservationPrice p) of
        Some t \<Rightarrow> []
      | None \<Rightarrow>
          CallAuth # CallGenerateUUID #
          (case live_user_id (session_at e (auth_count w)) of
             None \<Rightarrow> []
           | Some uid \<Rightarrow>
               [CallCreateReservation (fst (generateUUID w)) uid
                  (details_json (with_price p (price_of e p)))]))"
proof (cases "live_user_id (session_at e (auth_count w))")
  case None
  then show ?thesis
    by (simp add: createReservation_part_no_user new_calls_def logged_def
        split: option.splits)
next
  case (Some uid)
  then show ?thesis
    by (simp add: createReservation_part_live Let_def new_calls_def logged_def
        generateUUID_def split: option.splits)
qed

lemma verifyPayment_world:
  "snd (verifyPayment e rid w) = logged (CallGetReservationById rid) w"
  by (simp add: verifyPayment_def query_defs split: option.splits)

lemma displayBoardingPass_route1_world:
  "snd (displayBoardingPass_route1 e rid w) = logged (CallGetReservationById rid) w"
  by (simp add: displayBoardingPass_route1_def query_defs split: option.splits)

lemma displayBoardingPass_route2_world:
  "snd (displayBoardingPass_route2 e rid w) = logged (CallGetReservationById rid) w"
  by (simp add: displayBoardingPass_route2_def query_defs split: option.splits sum.splits)

lemma displayBoardingPass_part_world:
  "snd (displayBoardingPass_part e ps w) = logged (CallGetReservationById (reservationId ps)) w"
  by (simp add: displayBoardingPass_part_def query_defs split: option.splits)

lemma new_calls_logged: "new_calls w (logged c w) = [c]"
  by (simp add: new_calls_def logged_def)

lemma onFinish_route_calls:
  "new_calls w (onFinish_route e s i cm rm w) =
     (case live_user_id (Some s) of
        None \<Rightarrow> []
      | Some uid \<Rightarrow> [CallSaveChat i (cm @ rm) uid])"
  by (simp add: onFinish_route_def saveChat_def new_calls_def logged_def split: option.splits)

lemma onFinish_part_calls:
  "new_calls w (onFinish_part e i cm rm w) =
     CallAuth #
     (case live_user_id (session_at e (auth_count w)) of
        None \<Rightarrow> []
      | Some uid \<Rightarrow> [CallSaveChat i (cm @ rm) uid])"
  by (simp add: onFinish_part_def saveChat_def auth_def new_calls_def logged_def
      split: option.splits)

text \<open>
  Claim C8, as amended. The calls each execution makes, in order:
  \<^item> \<open>createReservation\<close> (all revisions) calls \<open>auth()\<close> after the pricing function and
    before the insertion, and inserts only under the live user id of that session;
  \<^item> \<open>onFinish\<close> of part_000 calls \<open>auth()\<close> and saves only under the live user id of
    that session;
  \<^item> \<open>onFinish\<close> of \<open>route.ts\<close> calls \<open>auth()\<close> not at all: it saves under the id of
    the session \<open>s\<close> that \<open>POST\<close> resolved at its entry;
  \<^item> \<open>verifyPayment\<close> and \<open>displayBoardingPass\<close> (all revisions) call
    \<open>getReservationById\<close> and nothing else: no identity is checked.
\<close>

theorem identity_checks:
  "new_calls w (snd (createReservation_route e p w)) =
     CallGenerateReservationPrice p #
     (case rejects e (CallGenerateReservationPrice p) of
        Some t \<Rightarrow> []
      | None \<Rightarrow>
          CallAuth # CallGenerateUUID #
          (case live_user_id (session_at e (auth_count w)) of
             None \<Rightarrow> []
           | Some uid \<Rightarrow>
               [CallCreateReservation (fst (generateUUID w)) uid
                  (details_json (with_price p (price_of e p)))]))
   \<and> new_calls w (snd (createReservation_part e p w)) =
       new_calls w (snd (createReservation_route e p w))
   \<and> new_calls w (onFinish_part e i cm rm w) =
       CallAuth #
       (case live_user_id (session_at e (auth_count w)) of
          None \<Rightarrow> []
        | Some uid \<Rightarrow> [CallSaveChat i (cm @ rm) uid])
   \<and> new_calls w (onFinish_route e s i cm rm w) =
       (case live_user_id (Some s) of
          None \<Rightarrow> []
        | Some uid \<Rightarrow> [CallSaveChat i (cm @ rm) uid])
   \<and> new_calls w (snd (verifyPayment e rid w)) = [CallGetReservationById rid]
   \<and> new_calls w (snd (displayBoardingPass_route1 e rid w)) = [CallGetReservationById rid]
   \<and> new_calls w (snd (displayBoardingPass_route2 e rid w)) = [CallGetReservationById rid]
   \<and> new_calls w (snd (displayBoardingPass_part e ps w)) =
       [CallGetReservationById (reservationId ps)]"
  by (simp only: createReservation_route_calls createReservation_part_calls
      onFinish_part_calls onFinish_route_calls verifyPayment_world
      displayBoardingPass_route1_world displayBoardingPass_route2_world
      displayBoardingPass_part_world new_calls_logged simp_thms)

theorem identity_checks_witness:
  "new_calls example_world
     (snd (createReservation_route (quiet_env (Some (user_session ''alice''))) alice_props
        example_world)) =
     [CallGenerateReservationPrice alice_props, CallAuth, CallGenerateUUID,
      CallCreateReservation ''000'' ''alice'' (details_json (with_price alice_props 420))]
   \<and> new_calls example_world
       (onFinish_part (quiet_env (Some (user_session ''alice''))) ''c1'' [] [] example_world) =
       [CallAuth, CallSaveChat ''c1'' [] ''alice'']
   \<and> new_calls example_world
       (onFinish_route (quiet_env None) (user_session ''alice'') ''c1'' [] [] example_world) =
       [CallSaveChat ''c1'' [] ''alice'']
   \<and> new_calls example_world (snd (verifyPayment (quiet_env None) ''r2'' example_world)) =
       [CallGetReservationById ''r2'']"
  using identity_checks [of example_world "quiet_env (Some (user_session ''alice''))"
      alice_props "''c1''" "[]" "[]" "user_session ''alice''" "''r2''" forged_params]
    identity_checks [of example_world "quiet_env None"
      alice_props "''c1''" "[]" "[]" "user_session ''alice''" "''r2''" forged_params]
  by (simp add: quiet_env_def user_session_def live_user_id_def generateUUID_def
      example_world_def fresh_id_def)

text \<open>
  Claim C8 as stated fails: with no session at all, \<open>verifyPayment\<close> reads the
  reservation \<open>r2\<close> and reports its payment flag without any call of \<open>auth()\<close>.
\<close>

theorem verifyPayment_without_identity_check:
  "session_at (quiet_env None) (auth_count example_world) = None
   \<and> CallAuth \<notin> set (new_calls example_world
        (snd (verifyPayment (quiet_env None) ''r2'' example_world)))
   \<and> fst (verifyPayment (quiet_env None) ''r2'' example_world) =
       JObj [(''hasCompletedPayment'', JBool True)]"
  by (simp add: verifyPayment_def query_defs new_calls_def quiet_env_def example_world_def)

subsection \<open>No tool writes a chat\<close>

text \<open>
  Whatever tools the model invokes, in whatever order, the chat table stays as it is:
  only \<open>onFinish\<close> and \<open>DELETE\<close> write it.
\<close>

lemma keeps_chats_iff:
  "keeps_chats w w' \<longleftrightarrow>
     chats w' = chats w \<and> (\<exists>cs. calls w' = calls w @ cs \<and> \<not> list_ex chat_write cs)"
proof
  assume k: "keeps_chats w w'"
  then have "calls w' = calls w @ new_calls w w'"
    unfolding keeps_chats_def new_calls_def
    by (metis append_take_drop_id)
  with k show "chats w' = chats w \<and> (\<exists>cs. calls w' = calls w @ cs \<and> \<not> list_ex chat_write cs)"
    unfolding keeps_chats_def by blast
next
  assume "chats w' = chats w \<and> (\<exists>cs. calls w' = calls w @ cs \<and> \<not> list_ex chat_write cs)"
  then show "keeps_chats w w'"
    by (auto simp: keeps_chats_def new_calls_def)
qed

lemma keeps_chats_refl: "keeps_chats w w"
  by (simp add: keeps_chats_iff)

lemma keeps_chats_trans: "keeps_chats w w1 \<Longrightarrow> keeps_chats w1 w2 \<Longrightarrow> keeps_chats w w2"
  by (auto simp: keeps_chats_iff list_ex_iff)

lemma keeps_chats_external:
  "\<not> chat_write c \<Longrightarrow> keeps_chats w (snd (external e c v w))"
  by (simp add: keeps_chats_iff external_def logged_def split: option.splits)

lemma keeps_chats_createReservation_route:
  "keeps_chats w (snd (createReservation_route e p w))"
proof (cases "live_user_id (session_at e (auth_count w))")
  case None
  then show ?thesis
    by (simp add: createReservation_route_no_user keeps_chats_iff logged_def
        split: option.splits)
next
  case (Some uid)
  then show ?thesis
    by (simp add: createReservation_route_live Let_def keeps_chats_iff logged_def
        split: option.splits)
qed

lemma keeps_chats_createReservation_part:
  "keeps_chats w (snd (createReservation_part e p w))"
proof (cases "live_user_id (session_at e (auth_count w))")
  case None
  then show ?thesis
    by (simp add: createReservation_part_no_user keeps_chats_iff logged_def
        split: option.splits)
next
  case (Some uid)
  then show ?thesis
    by (simp add: createReservation_part_live Let_def keeps_chats_iff logged_def
        split: option.splits)
qed

lemma keeps_chats_logged: "\<not> chat_write c \<Longrightarrow> keeps_chats w (logged c w)"
  by (simp add: keeps_chats_iff logged_def)

lemma keeps_chats_getWeather_route: "keeps_chats w (snd (getWeather_route e la lo w))"
  by (simp add: keeps_chats_iff getWeather_route_def fetchWeather_def external_def logged_def
      split: option.splits)

lemma keeps_chats_getWeather_part: "keeps_chats w (snd (getWeather_part e la lo w))"
  by (simp add: keeps_chats_iff getWeather_part_def fetchWeather_def external_def logged_def
      split: option.splits)

lemma keeps_chats_generators:
  "keeps_chats w (snd (displayFlightStatus e f d w))"
  "keeps_chats w (snd (searchFlights e a b w))"
  "keeps_chats w (snd (selectSeats e f w))"
  by (simp_all add: displayFlightStatus_def searchFlights_def selectSeats_def
      generateSampleFlightStatus_def generateSampleFlightSearchResults_def
      generateSampleSeatSelection_def keeps_chats_external)

lemma keeps_chats_tools_route1: "keeps_chats w (snd (tools_route1 e c w))"
  by (cases c)
    (simp_all add: keeps_chats_getWeather_route keeps_chats_generators
      keeps_chats_createReservation_route keeps_chats_refl returned_def verifyPayment_world
      displayBoardingPass_route1_world keeps_chats_logged)

lemma keeps_chats_tools_route2: "keeps_chats w (snd (tools_route2 e c w))"
  by (cases c)
    (simp_all add: keeps_chats_getWeather_route keeps_chats_generators
      keeps_chats_createReservation_route keeps_chats_refl returned_def verifyPayment_world
      displayBoardingPass_route2_world keeps_chats_logged)

lemma keeps_chats_tools_part: "keeps_chats w (snd (tools_part e c w))"
  by (cases c)
    (simp_all add: keeps_chats_getWeather_part keeps_chats_generators
      keeps_chats_createReservation_part keeps_chats_refl returned_def verifyPayment_world
      displayBoardingPass_part_world keeps_chats_logged)

lemma keeps_chats_run_tools:
  assumes "\<And>c w. keeps_chats w (snd (tool c w))"
  shows "keeps_chats w (snd (run_tools tool cs w))"
proof (induction cs arbitrary: w)
  case Nil
  show ?case by (simp add: keeps_chats_refl)
next
  case (Cons c cs)
  have "keeps_chats w (snd (tool c w))" by (rule assms)
  moreover have "keeps_chats (snd (tool c w)) (snd (run_tools tool cs (snd (tool c w))))"
    by (rule Cons.IH)
  ultimately show ?case
    by (auto simp: split_beta intro: keeps_chats_trans)
qed

subsection \<open>\<open>POST\<close>, step by step\<close>

text \<open>
  After the entry (\<open>auth()\<close>, then \<open>streamText\<close> on the core messages) the tools run
  and write no chat; then \<open>onFinish\<close> saves, or skips.
\<close>

lemma run_tools_after_entry:
  assumes frame: "\<And>c w. keeps_chats w (snd (tool c w))"
  shows "\<exists>tcs.
    calls (snd (run_tools tool cs
      (w\<lparr>auth_count := n, calls := calls w @ [CallAuth, CallStreamText cm]\<rparr>)))
       = calls w @ CallAuth # CallStreamText cm # tcs
    \<and> \<not> list_ex chat_write tcs
    \<and> chats (snd (run_tools tool cs
      (w\<lparr>auth_count := n, calls := calls w @ [CallAuth, CallStreamText cm]\<rparr>)))
       = chats w"
proof -
  let ?w2 = "w\<lparr>auth_count := n, calls := calls w @ [CallAuth, CallStreamText cm]\<rparr>"
  have "keeps_chats ?w2 (snd (run_tools tool cs ?w2))"
    by (rule keeps_chats_run_tools) (rule frame)
  then obtain tcs where "calls (snd (run_tools tool cs ?w2)) = calls ?w2 @ tcs"
    and "\<not> list_ex chat_write tcs" and "chats (snd (run_tools tool cs ?w2)) = chats ?w2"
    unfolding keeps_chats_iff by blast
  then have "calls (snd (run_tools tool cs ?w2)) = calls w @ CallAuth # CallStreamText cm # tcs
      \<and> \<not> list_ex chat_write tcs \<and> chats (snd (run_tools tool cs ?w2)) = chats w"
    by simp
  then show ?thesis ..
qed

lemma POST_route_streams:
  assumes "session_at e (auth_count w) = Some s"
  shows "POST_route tools e (Parsed b) (Streams cs fin) w =
     (let cm = coreMessages_of e (body_messages b);
          r = run_tools (tools e) cs
                (w\<lparr>auth_count := Suc (auth_count w),
                   calls := calls w @ [CallAuth, CallStreamText cm]\<rparr>)
      in (Inr (DataStreamResponse (fst r)),
          case fin of
            None \<Rightarrow> snd r
          | Some rm \<Rightarrow> onFinish_route e s (body_id b) cm rm (snd r)))"
  using assms
  by (simp add: POST_route_def request_json_def auth_def logged_def Let_def split_beta
      cong: option.case_cong)

lemma POST_part_streams:
  assumes "session_at e (auth_count w) = Some s"
  shows "POST_part e (Parsed b) (Streams cs fin) w =
     (let cm = coreMessages_of e (body_messages b);
          r = run_tools (tools_part e) cs
                (w\<lparr>auth_count := Suc (auth_count w),
                   calls := calls w @ [CallAuth, CallStreamText cm]\<rparr>)
      in (Inr (DataStreamResponse (fst r)),
          case fin of
            None \<Rightarrow> snd r
          | Some rm \<Rightarrow> onFinish_part e (body_id b) cm rm (snd r)))"
  using assms
  by (simp add: POST_part_def request_json_def auth_def logged_def Let_def split_beta
      cong: option.case_cong)



lemma entry_world:
  "logged (CallStreamText cm) (snd (auth e w)) =
     w\<lparr>auth_count := Suc (auth_count w), calls := calls w @ [CallAuth, CallStreamText cm]\<rparr>"
  by (simp add: auth_def logged_def)








lemma saveChat_saves:
  "rejects e (CallSaveChat i ms uid) = None \<Longrightarrow>
   saveChat e i ms uid w =
     (Inr (), w\<lparr>chats := AList.update i \<lparr>messages = ms, userId = uid\<rparr> (chats w),
                calls := calls w @ [CallSaveChat i ms uid]\<rparr>)"
  by (simp add: saveChat_def logged_def)

lemma chat_savedI:
  assumes "chats w' = AList.update (body_id b)
      \<lparr>messages = coreMessages_of e (body_messages b) @ rm, userId = uid\<rparr> (chats w)"
    and "calls w' = calls w @ CallAuth # CallStreamText (coreMessages_of e (body_messages b)) #
      tcs @ [CallSaveChat (body_id b) (coreMessages_of e (body_messages b) @ rm) uid]"
  shows "chat_saved e b rm uid w w'"
  using assms
  by (simp add: chat_saved_def Let_def coreMessages_of_def new_calls_def update_conv')

lemma POST_route_saves:
  assumes frame: "\<And>c w. keeps_chats w (snd (tools e c w))"
    and entry: "session_at e (auth_count w) = Some s" and live: "live_user_id (Some s) = Some uid"
    and saves: "rejects e (CallSaveChat (body_id b)
      (coreMessages_of e (body_messages b) @ rm) uid) = None"
  shows "chat_saved e b rm uid w (snd (POST_route tools e (Parsed b) (Streams cs (Some rm)) w))"
proof -
  let ?cm = "coreMessages_of e (body_messages b)"
  let ?w3 = "snd (run_tools (tools e) cs
                (w\<lparr>auth_count := Suc (auth_count w),
                   calls := calls w @ [CallAuth, CallStreamText ?cm]\<rparr>))"
  let ?w' = "snd (POST_route tools e (Parsed b) (Streams cs (Some rm)) w)"
  obtain tcs where t: "calls ?w3 = calls w @ CallAuth # CallStreamText ?cm # tcs"
    "chats ?w3 = chats w"
    using run_tools_after_entry [of "tools e", OF frame] by blast
  have "?w' = ?w3\<lparr>chats := AList.update (body_id b) \<lparr>messages = ?cm @ rm, userId = uid\<rparr>
                 (chats ?w3),
               calls := calls ?w3 @ [CallSaveChat (body_id b) (?cm @ rm) uid]\<rparr>"
    by (simp add: POST_route_streams [OF entry] Let_def onFinish_route_def live
        saveChat_saves [OF saves])
  then have "chats ?w' = AList.update (body_id b) \<lparr>messages = ?cm @ rm, userId = uid\<rparr> (chats w)"
    and "calls ?w' = calls w @ CallAuth # CallStreamText ?cm # tcs @
      [CallSaveChat (body_id b) (?cm @ rm) uid]"
    using t by simp_all
  then show ?thesis by (rule chat_savedI)
qed

lemma POST_part_saves:
  assumes entry: "session_at e (auth_count w) = Some s"
    and live: "live_user_id (completion_session e b cs w) = Some uid"
    and saves: "rejects e (CallSaveChat (body_id b)
      (coreMessages_of e (body_messages b) @ rm) uid) = None"
  shows "chat_saved e b rm uid w (snd (POST_part e (Parsed b) (Streams cs (Some rm)) w))"
proof -
  let ?cm = "coreMessages_of e (body_messages b)"
  let ?w3 = "snd (run_tools (tools_part e) cs
                (w\<lparr>auth_count := Suc (auth_count w),
                   calls := calls w @ [CallAuth, CallStreamText ?cm]\<rparr>))"
  let ?w' = "snd (POST_part e (Parsed b) (Streams cs (Some rm)) w)"
  obtain tcs where t: "calls ?w3 = calls w @ CallAuth # CallStreamText ?cm # tcs"
    "chats ?w3 = chats w"
    using run_tools_after_entry [of "tools_part e", OF keeps_chats_tools_part] by blast
  have read: "live_user_id (session_at e (auth_count ?w3)) = Some uid"
    using live by (simp add: completion_session_def entry_world)
  have "?w' = ?w3\<lparr>auth_count := Suc (auth_count ?w3),
               chats := AList.update (body_id b) \<lparr>messages = ?cm @ rm, userId = uid\<rparr>
                 (chats ?w3),
               calls := calls ?w3 @ [CallAuth, CallSaveChat (body_id b) (?cm @ rm) uid]\<rparr>"
    by (simp add: POST_part_streams [OF entry] Let_def onFinish_part_def auth_def read
        logged_def saveChat_saves [OF saves])
  then have "chats ?w' = AList.update (body_id b) \<lparr>messages = ?cm @ rm, userId = uid\<rparr> (chats w)"
    and "calls ?w' = calls w @ CallAuth # CallStreamText ?cm # (tcs @ [CallAuth]) @
      [CallSaveChat (body_id b) (?cm @ rm) uid]"
    using t by simp_all
  then show ?thesis by (rule chat_savedI)
qed

lemma completion_session_always:
  "\<forall>n. live_user_id (session_at e n) = x \<Longrightarrow> live_user_id (completion_session e b cs w) = x"
  by (simp add: completion_session_def)

subsection \<open>\<open>POST\<close> under a session without a user id\<close>




subsection \<open>What \<open>POST\<close> persists on completion\<close>

text \<open>
  Claim C6, as amended. The stream completes with the response messages \<open>rm\<close>; the
  session carries the live user id \<open>uid\<close> (in \<open>route.ts\<close>: the session resolved at the
  entry; in part_000: the session each time it is read); \<open>saveChat\<close> does not throw.
  Then \<open>chat_saved\<close> holds: the chat persisted under the request's id is exactly the
  filtered core messages followed by \<open>rm\<close>, and that same filtered list is what
  \<open>streamText\<close> received.
\<close>

theorem POST_saves_chat:
  assumes "session_at e (auth_count w) = Some s" and "live_user_id (Some s) = Some uid"
    and "rejects e (CallSaveChat (body_id b)
      (coreMessages_of e (body_messages b) @ rm) uid) = None"
  shows "chat_saved e b rm uid w (snd (POST_route1 e (Parsed b) (Streams cs (Some rm)) w))
       \<and> chat_saved e b rm uid w (snd (POST_route2 e (Parsed b) (Streams cs (Some rm)) w))
       \<and> ((\<forall>n. live_user_id (session_at e n) = Some uid) \<longrightarrow>
            chat_saved e b rm uid w (snd (POST_part e (Parsed b) (Streams cs (Some rm)) w)))"
  unfolding POST_route1_def POST_route2_def
  using POST_route_saves [where tools = tools_route1, OF keeps_chats_tools_route1 assms]
    POST_route_saves [where tools = tools_route2, OF keeps_chats_tools_route2 assms]
    POST_part_saves [OF assms(1) completion_session_always assms(3)]
  by simp

theorem POST_saves_chat_witness:
  "map_of (chats (snd (POST_route1 (quiet_env (Some (user_session ''alice''))) (Parsed hi_body)
      (Streams [VerifyPayment ''r2''] (Some [reply_message])) example_world))) ''c1''
     = Some \<lparr>messages = [\<lparr>role = ''user'', content = Text ''hi''\<rparr>, reply_message],
             userId = ''alice''\<rparr>
   \<and> map_of (chats (snd (POST_route2 (quiet_env (Some (user_session ''alice''))) (Parsed hi_body)
      (Streams [VerifyPayment ''r2''] (Some [reply_message])) example_world))) ''c1''
     = Some \<lparr>messages = [\<lparr>role = ''user'', content = Text ''hi''\<rparr>, reply_message],
             userId = ''alice''\<rparr>
   \<and> map_of (chats (snd (POST_part (quiet_env (Some (user_session ''alice''))) (Parsed hi_body)
      (Streams [VerifyPayment ''r2''] (Some [reply_message])) example_world))) ''c1''
     = Some \<lparr>messages = [\<lparr>role = ''user'', content = Text ''hi''\<rparr>, reply_message],
             userId = ''alice''\<rparr>"
proof -
  let ?e = "quiet_env (Some (user_session ''alice''))"
  let ?run = "Streams [VerifyPayment ''r2''] (Some [reply_message])"
  have entry: "session_at ?e (auth_count example_world) = Some (user_session ''alice'')"
    by (simp add: quiet_env_def)
  have live: "live_user_id (Some (user_session ''alice'')) = Some ''alice''"
    by (simp add: user_session_def live_user_id_def)
  have saves: "rejects ?e (CallSaveChat (body_id hi_body)
      (coreMessages_of ?e (body_messages hi_body) @ [reply_message]) ''alice'') = None"
    by (simp add: quiet_env_def)
  have always: "\<forall>n. live_user_id (session_at ?e n) = Some ''alice''"
    by (simp add: quiet_env_def live)
  have core: "filter (\<lambda>m. content_length (content m) > 0)
      (convertToCoreMessages ?e (body_messages hi_body)) = [\<lparr>role = ''user'', content = Text ''hi''\<rparr>]"
    by (simp add: quiet_env_def hi_body_def text_message_def)
  have "chat_saved ?e hi_body [reply_message] ''alice'' example_world
          (snd (POST_route1 ?e (Parsed hi_body) ?run example_world))
      \<and> chat_saved ?e hi_body [reply_message] ''alice'' example_world
          (snd (POST_route2 ?e (Parsed hi_body) ?run example_world))
      \<and> chat_saved ?e hi_body [reply_message] ''alice'' example_world
          (snd (POST_part ?e (Parsed hi_body) ?run example_world))"
    using POST_saves_chat [OF entry live saves, of "[VerifyPayment ''r2'']"] always by blast
  then show ?thesis
    unfolding chat_saved_def Let_def core by (simp add: hi_body_def update_conv')
qed

text \<open>
  Claim C6 as stated fails: the stream completes, but the session has no user id, so
  the guard of \<open>onFinish\<close> skips \<open>saveChat\<close> and the chat stored under the id is still
  the old one ("hello"), not the core messages followed by the reply.
\<close>

theorem POST_without_user_id_keeps_old_chat:
  "map_option messages
     (map_of (chats (snd (POST_route1 (quiet_env (Some idless_session)) (Parsed hi_body)
        (Streams [] (Some [reply_message])) example_world))) (body_id hi_body))
   \<noteq> Some (coreMessages_of (quiet_env (Some idless_session)) (body_messages hi_body)
             @ [reply_message])"
  by (simp add: POST_route1_def POST_route_def request_json_def auth_def logged_def
      quiet_env_def idless_session_def live_user_id_def onFinish_route_def example_world_def
      hi_body_def
      coreMessages_of_def text_message_def reply_message_def)

end
